theory Spec2Isabelle
  imports Complex_Main "HOL-Library.Multiset"
begin

section \<open>WaveFT adapter layer (peft/tuners/waveft/layer.py)\<close>

text \<open>
  Arithmetic is exact: tensor entries range over a field \<open>'a\<close>, so rounding is absent.
  A dtype is a tag that a tensor carries; \<open>to\<close> rewrites the tag and keeps the entries.
  A matrix is the list of its rows; a 2 x n index tensor is the list of its n columns,
  each a (row, col) pair. Exceptions are values of \<open>error\<close>; a method that mutates the
  layer returns the layer as it stands when the method returns or raises.
\<close>

subsection \<open>Tensors\<close>

datatype dtype = Float16 | BFloat16 | Float32 | Float64

record 'v tensor =
  dtype :: dtype
  vals :: 'v

type_synonym 'a matrix = "'a list list"

datatype error =
    ValueError_not_positive int
  | ValueError_exceeds_product int nat
  | ValueError_unsupported_wavelet string "string list"
  | ValueError_nans string
  | ValueError_layer_type
  | KeyError string
  | IndexError
  | RuntimeError


definition nrows :: "'a matrix \<Rightarrow> nat" where
  "nrows M = length M"

definition ncols :: "'a matrix \<Rightarrow> nat" where
  "ncols M = (case M of [] \<Rightarrow> 0 | r # _ \<Rightarrow> length r)"

definition is_matrix :: "nat \<Rightarrow> nat \<Rightarrow> 'a matrix \<Rightarrow> bool" where
  "is_matrix R C M = (length M = R \<and> list_all (\<lambda>row. length row = C) M)"

definition zeros :: "nat \<Rightarrow> nat \<Rightarrow> 'a::zero matrix" where
  "zeros R C = replicate R (replicate C 0)"

definition scale :: "'a::times matrix \<Rightarrow> 'a \<Rightarrow> 'a matrix" where
  "scale M s = map (map (\<lambda>v. v * s)) M"

definition to :: "dtype \<Rightarrow> 'v tensor \<Rightarrow> 'v tensor" where
  "to d t = t\<lparr>dtype := d\<rparr>"

text \<open>Python slicing \<open>xs[start:stop]\<close>: a negative bound counts from the end, and both
  bounds are clamped to the list.\<close>

definition py_slice :: "int \<Rightarrow> int \<Rightarrow> 'b list \<Rightarrow> 'b list" where
  "py_slice start stop xs =
    (let n = int (length xs);
         lo = (if start < 0 then max (start + n) 0 else min start n);
         hi = (if stop < 0 then max (stop + n) 0 else min stop n)
     in take (nat (hi - lo)) (drop (nat lo) xs))"

text \<open>Boolean-mask selection \<open>t[mask]\<close>: the mask must have the length of \<open>t\<close>.\<close>

definition mask_select :: "bool list \<Rightarrow> 'b list \<Rightarrow> error + 'b list" where
  "mask_select msk xs =
    (if length msk \<noteq> length xs then Inl IndexError
     else Inr (map snd (filter fst (zip msk xs))))"

text \<open>Indexed assignment \<open>M[idx[0, :], idx[1, :]] = vs\<close>: the values must have one entry per
  index pair (or a single entry, which is broadcast), every pair must lie inside \<open>M\<close>, and
  the writes happen in order, so the last write to a position wins.\<close>

definition put :: "'a matrix \<Rightarrow> (nat \<times> nat) \<times> 'a \<Rightarrow> 'a matrix" where
  "put M w = (case w of ((r, c), v) \<Rightarrow> M[r := (M ! r)[c := v]])"

definition index_put :: "'a matrix \<Rightarrow> (nat \<times> nat) list \<Rightarrow> 'a list \<Rightarrow> error + 'a matrix" where
  "index_put M idx vs =
    (if length vs \<noteq> length idx \<and> length vs \<noteq> 1 then Inl RuntimeError
     else if \<not> list_all (\<lambda>(r, c). r < nrows M \<and> c < ncols M) idx then Inl IndexError
     else Inr (foldl put M
            (zip idx (if length vs = length idx then vs else replicate (length idx) (hd vs)))))"

text \<open>In-place \<open>W += D\<close> and \<open>W -= D\<close>: \<open>D\<close> is broadcast to the shape of \<open>W\<close> (each of its
  dimensions equals that of \<open>W\<close> or is 1), otherwise PyTorch raises a RuntimeError.\<close>

definition expand :: "nat \<Rightarrow> nat \<Rightarrow> 'a matrix \<Rightarrow> 'a matrix" where
  "expand R C D =
    map (\<lambda>row. if length row = C then row else replicate C (hd row))
      (if length D = R then D else replicate R (hd D))"

definition expandable :: "nat \<Rightarrow> nat \<Rightarrow> 'a matrix \<Rightarrow> bool" where
  "expandable R C D = ((nrows D = R \<or> nrows D = 1) \<and> (ncols D = C \<or> ncols D = 1))"

definition iadd :: "'a::plus matrix \<Rightarrow> 'a matrix \<Rightarrow> error + 'a matrix" where
  "iadd W D =
    (if expandable (nrows W) (ncols W) D
     then Inr (map2 (map2 (+)) W (expand (nrows W) (ncols W) D))
     else Inl RuntimeError)"

definition isub :: "'a::minus matrix \<Rightarrow> 'a matrix \<Rightarrow> error + 'a matrix" where
  "isub W D =
    (if expandable (nrows W) (ncols W) D
     then Inr (map2 (map2 (-)) W (expand (nrows W) (ncols W) D))
     else Inl RuntimeError)"

subsection \<open>WaveFTLayer\<close>

text \<open>\<open>WaveFTLayer.WAVELET_REDUCTIONS\<close>, in the order of the source.\<close>

definition WAVELET_REDUCTIONS :: "(string \<times> (nat \<times> nat)) list" where
  "WAVELET_REDUCTIONS = [
    (''db1'', (0, 0)), (''db2'', (2, 2)), (''db3'', (4, 4)), (''db4'', (6, 6)),
    (''db5'', (8, 8)), (''db6'', (10, 10)), (''db7'', (12, 12)), (''db8'', (14, 14)),
    (''db9'', (16, 16)), (''db10'', (18, 18)), (''db11'', (20, 20)), (''db12'', (22, 22)),
    (''db13'', (24, 24)), (''db14'', (26, 26)), (''db15'', (28, 28)), (''db16'', (30, 30)),
    (''db17'', (32, 32)), (''db18'', (34, 34)), (''db19'', (36, 36)), (''db20'', (38, 38)),
    (''db21'', (40, 40)), (''db22'', (42, 42)), (''db23'', (44, 44)), (''db24'', (46, 46)),
    (''db25'', (48, 48)), (''db26'', (50, 50)), (''db27'', (52, 52)), (''db28'', (54, 54)),
    (''db29'', (56, 56)), (''db30'', (58, 58)), (''db31'', (60, 60)), (''db32'', (62, 62)),
    (''db33'', (64, 64)), (''db34'', (66, 66)), (''db35'', (68, 68)), (''db36'', (70, 70)),
    (''db37'', (72, 72)), (''db38'', (74, 74)), (''sym2'', (2, 2)), (''sym3'', (4, 4)),
    (''sym4'', (6, 6)), (''sym5'', (8, 8)), (''sym6'', (10, 10)), (''sym7'', (12, 12)),
    (''sym8'', (14, 14)), (''sym9'', (16, 16)), (''sym10'', (18, 18)), (''sym11'', (20, 20)),
    (''sym12'', (22, 22)), (''sym13'', (24, 24)), (''sym14'', (26, 26)), (''sym15'', (28, 28)),
    (''sym16'', (30, 30)), (''sym17'', (32, 32)), (''sym18'', (34, 34)), (''sym19'', (36, 36)),
    (''sym20'', (38, 38)), (''coif1'', (4, 4)), (''coif2'', (10, 10)), (''coif3'', (16, 16)),
    (''coif4'', (22, 22)), (''coif5'', (28, 28)), (''coif6'', (34, 34)), (''coif7'', (40, 40)),
    (''coif8'', (46, 46)), (''coif9'', (52, 52)), (''coif10'', (58, 58)), (''coif11'', (64, 64)),
    (''coif12'', (70, 70)), (''coif13'', (76, 76)), (''coif14'', (82, 82)), (''coif15'', (88, 88)),
    (''coif16'', (94, 94)), (''coif17'', (100, 100))]"

text \<open>The attributes of a layer. \<open>weight\<close> is \<open>base_layer.weight.data\<close>, \<open>use_idwt\<close> is
  \<open>kwargs.get("use_idwt", True)\<close>, \<open>active_adapters\<close> is the list behind \<open>_active_adapter\<close>.\<close>

record 'a layer =
  in_features :: nat
  out_features :: nat
  weight :: "'a matrix"
  waveft_n_frequency :: "string \<rightharpoonup> int"
  waveft_scaling :: "string \<rightharpoonup> 'a"
  waveft_spectrum :: "string \<rightharpoonup> 'a list tensor"
  waveft_wavelet_family :: "string \<rightharpoonup> string"
  indices :: "string \<rightharpoonup> (nat \<times> nat) list"
  waveft_random_loc_seed :: "string \<rightharpoonup> int"
  disable_adapters :: bool
  merged_adapters :: "string list"
  use_idwt :: bool
  active_adapters :: "string list"

text \<open>The base layers \<open>__init__\<close> tells apart: \<open>nn.Linear\<close> with its declared features and
  weight, \<open>Conv1D\<close> with its weight of shape (in_features, out_features), anything else.
  The \<open>ds_shape\<close> that a partitioned weight carries is left out: the shape is read from
  the weight.\<close>

datatype 'a base_layer = Linear nat nat "'a matrix" | Conv1D "'a matrix" | Other_layer

definition base_weight :: "'a base_layer \<Rightarrow> 'a matrix" where
  "base_weight b = (case b of Linear _ _ w \<Rightarrow> w | Conv1D w \<Rightarrow> w | Other_layer \<Rightarrow> [])"

definition WaveFTLayer_init :: "'a base_layer \<Rightarrow> bool \<Rightarrow> string list \<Rightarrow> error + 'a layer" where
  "WaveFTLayer_init b idwt active =
    (let self = \<lparr>in_features = 0, out_features = 0, weight = base_weight b,
                  waveft_n_frequency = Map.empty, waveft_scaling = Map.empty,
                  waveft_spectrum = Map.empty, waveft_wavelet_family = Map.empty,
                  indices = Map.empty, waveft_random_loc_seed = Map.empty,
                  disable_adapters = False, merged_adapters = [],
                  use_idwt = idwt, active_adapters = active\<rparr>
     in case b of
          Linear i out w \<Rightarrow> Inr (self\<lparr>in_features := i, out_features := out\<rparr>)
        | Conv1D w \<Rightarrow> Inr (self\<lparr>in_features := nrows w, out_features := ncols w\<rparr>)
        | Other_layer \<Rightarrow> Inl ValueError_layer_type)"

definition merged :: "'a layer \<Rightarrow> bool" where
  "merged self = (merged_adapters self \<noteq> [])"

text \<open>\<open>reset_wave_parameters\<close>: zero the spectrum of an adapter that has one.\<close>

definition reset_wave_parameters :: "'a::zero layer \<Rightarrow> string \<Rightarrow> 'a layer" where
  "reset_wave_parameters self adapter_name =
    (case waveft_spectrum self adapter_name of
       None \<Rightarrow> self
     | Some sp \<Rightarrow> self\<lparr>waveft_spectrum := (waveft_spectrum self)
                        (adapter_name \<mapsto> sp\<lparr>vals := map (\<lambda>_. 0) (vals sp)\<rparr>)\<rparr>)"

text \<open>\<open>update_layer\<close>. The pseudo-random sources of PyTorch are parameters:
  \<open>randperm seed n\<close> is \<open>torch.randperm(n, generator=torch.Generator().manual_seed(seed))\<close>,
  \<open>randn i\<close> is entry \<open>i\<close> of \<open>torch.randn(n_frequency)\<close>, \<open>empty_init i\<close> is entry \<open>i\<close> of
  the uninitialised \<open>torch.empty(n_frequency)\<close>, and \<open>pd\<close> is the dtype of the parameter.
  The division by \<open>in_features\<close> is only reached with
  \<open>0 < n_frequency \<le> in_features * out_features\<close>, so \<open>in_features\<close> is positive there. Device placement and \<open>requires_grad\<close> are not part of the state, so the closing
  calls \<open>_move_adapter_to_device_of_base_layer\<close> and \<open>set_adapter(self.active_adapters)\<close>
  leave it as it is.\<close>

definition update_layer ::
  "(int \<Rightarrow> nat \<Rightarrow> nat list) \<Rightarrow> (nat \<Rightarrow> 'a) \<Rightarrow> (nat \<Rightarrow> 'a) \<Rightarrow> dtype \<Rightarrow>
   'a::field layer \<Rightarrow> string \<Rightarrow> int \<Rightarrow> 'a \<Rightarrow> bool \<Rightarrow> int \<Rightarrow> string \<Rightarrow> error option \<times> 'a layer" where
  "update_layer randperm randn empty_init pd self adapter_name n_frequency scaling init_weights
      random_loc_seed wavelet_family =
    (if n_frequency \<le> 0 then (Some (ValueError_not_positive n_frequency), self)
     else if n_frequency > int (in_features self * out_features self)
       then (Some (ValueError_exceeds_product n_frequency (in_features self * out_features self)), self)
     else if map_of WAVELET_REDUCTIONS wavelet_family = None
       then (Some (ValueError_unsupported_wavelet wavelet_family (map fst WAVELET_REDUCTIONS)), self)
     else
       let perm = take (nat n_frequency) (randperm random_loc_seed (out_features self * in_features self));
           self1 = self\<lparr>
             waveft_n_frequency := (waveft_n_frequency self)(adapter_name \<mapsto> n_frequency),
             waveft_random_loc_seed := (waveft_random_loc_seed self)(adapter_name \<mapsto> random_loc_seed),
             waveft_wavelet_family := (waveft_wavelet_family self)(adapter_name \<mapsto> wavelet_family),
             indices := (indices self)
               (adapter_name \<mapsto> map (\<lambda>v. (v div in_features self, v mod in_features self)) perm),
             waveft_scaling := (waveft_scaling self)(adapter_name \<mapsto> scaling)\<rparr>
       in if init_weights
          then (None, reset_wave_parameters
                  (self1\<lparr>waveft_spectrum := (waveft_spectrum self1)
                     (adapter_name \<mapsto> \<lparr>dtype = pd, vals = map empty_init [0..<nat n_frequency]\<rparr>)\<rparr>) adapter_name)
          else (None, self1\<lparr>waveft_spectrum := (waveft_spectrum self1)
                     (adapter_name \<mapsto> \<lparr>dtype = pd, vals = map (\<lambda>i. randn i * (1 / 100)) [0..<nat n_frequency]\<rparr>)\<rparr>))"

text \<open>\<open>get_delta_weight\<close>. The wavelet reconstruction \<open>waverec2d\<close> is a parameter: it takes
  the coefficient tuple \<open>(cA, (cH, cV, cD))\<close> and the family name and returns a matrix.
  The blocks of the method are separate definitions: the padded size, the padded dense
  spectrum, the split into sub-bands, the centred crop, and the direct mode.\<close>

type_synonym 'a coeffs =
  "'a matrix tensor \<times> ('a matrix tensor \<times> 'a matrix tensor \<times> 'a matrix tensor)"

definition lookup :: "(string \<rightharpoonup> 'v) \<Rightarrow> string \<Rightarrow> error + 'v" where
  "lookup d k = (case d k of None \<Rightarrow> Inl (KeyError k) | Some v \<Rightarrow> Inr v)"

definition make_even :: "nat \<Rightarrow> nat" where
  "make_even n = (if n mod 2 \<noteq> 0 then n + 1 else n)"

definition padded_out_features :: "'a layer \<Rightarrow> nat \<Rightarrow> nat" where
  "padded_out_features self reduction_rows = make_even (out_features self + reduction_rows)"

definition padded_in_features :: "'a layer \<Rightarrow> nat \<Rightarrow> nat" where
  "padded_in_features self reduction_cols = make_even (in_features self + reduction_cols)"

definition row_offset :: "'a layer \<Rightarrow> nat \<Rightarrow> nat" where
  "row_offset self reduction_rows =
     (padded_out_features self reduction_rows - out_features self) div 2"

definition col_offset :: "'a layer \<Rightarrow> nat \<Rightarrow> nat" where
  "col_offset self reduction_cols =
     (padded_in_features self reduction_cols - in_features self) div 2"

definition padded_indices :: "'a layer \<Rightarrow> nat \<times> nat \<Rightarrow> (nat \<times> nat) list \<Rightarrow> (nat \<times> nat) list" where
  "padded_indices self red idx =
     map (\<lambda>(r, c). (r + row_offset self (fst red), c + col_offset self (snd red))) idx"

definition valid_mask :: "'a layer \<Rightarrow> nat \<times> nat \<Rightarrow> (nat \<times> nat) list \<Rightarrow> bool list" where
  "valid_mask self red idx =
     map (\<lambda>(r, c). r < padded_out_features self (fst red) \<and> c < padded_in_features self (snd red))
       (padded_indices self red idx)"

definition padded_dense_spectrum ::
  "'a::zero layer \<Rightarrow> nat \<times> nat \<Rightarrow> 'a list tensor \<Rightarrow> (nat \<times> nat) list \<Rightarrow> error + 'a matrix tensor" where
  "padded_dense_spectrum self red spectrum idx =
    (let dense_spectrum = zeros (padded_out_features self (fst red)) (padded_in_features self (snd red));
         valid_indices = map snd (filter fst (zip (valid_mask self red idx) (padded_indices self red idx)))
     in case mask_select (valid_mask self red idx) (vals spectrum) of
          Inl e \<Rightarrow> Inl e
        | Inr valid_spectrum \<Rightarrow>
            (case index_put dense_spectrum valid_indices valid_spectrum of
               Inl e \<Rightarrow> Inl e
             | Inr d \<Rightarrow> Inr \<lparr>dtype = dtype spectrum, vals = d\<rparr>))"

text \<open>The four quadrants; \<open>H\<close> and \<open>W\<close> are the shape the dense spectrum was allocated with.\<close>

definition split_subbands :: "nat \<Rightarrow> nat \<Rightarrow> 'a matrix tensor \<Rightarrow> 'a coeffs" where
  "split_subbands H W dense_spectrum =
    (let H2 = H div 2; W2 = W div 2; d = vals dense_spectrum; t = dtype dense_spectrum
     in (\<lparr>dtype = t, vals = map (take W2) (take H2 d)\<rparr>,
         (\<lparr>dtype = t, vals = map (drop W2) (take H2 d)\<rparr>,
          \<lparr>dtype = t, vals = map (take W2) (drop H2 d)\<rparr>,
          \<lparr>dtype = t, vals = map (drop W2) (drop H2 d)\<rparr>)))"

definition center_crop :: "'a layer \<Rightarrow> 'a matrix tensor \<Rightarrow> 'a matrix tensor" where
  "center_crop self delta_weight =
    (if nrows (vals delta_weight) \<noteq> out_features self \<or> ncols (vals delta_weight) \<noteq> in_features self
     then
       let start_row = (int (nrows (vals delta_weight)) - int (out_features self)) div 2;
           start_col = (int (ncols (vals delta_weight)) - int (in_features self)) div 2
       in delta_weight\<lparr>vals :=
            map (py_slice start_col (start_col + int (in_features self)))
              (py_slice start_row (start_row + int (out_features self)) (vals delta_weight))\<rparr>
     else delta_weight)"

definition direct_delta_weight ::
  "'a::{zero,times} layer \<Rightarrow> string \<Rightarrow> 'a list tensor \<Rightarrow> (nat \<times> nat) list \<Rightarrow> error + 'a matrix tensor" where
  "direct_delta_weight self adapter spectrum idx =
    (case index_put (zeros (out_features self) (in_features self)) idx (vals spectrum) of
       Inl e \<Rightarrow> Inl e
     | Inr dense_spectrum \<Rightarrow>
         (case lookup (waveft_scaling self) adapter of
            Inl e \<Rightarrow> Inl e
          | Inr scaling \<Rightarrow> Inr \<lparr>dtype = dtype spectrum, vals = scale dense_spectrum scaling\<rparr>))"

definition idwt_delta_weight ::
  "('a coeffs \<Rightarrow> string \<Rightarrow> 'a matrix tensor) \<Rightarrow> 'a::{zero,times} layer \<Rightarrow> string \<Rightarrow>
   'a list tensor \<Rightarrow> (nat \<times> nat) list \<Rightarrow> string \<Rightarrow> error + 'a matrix tensor" where
  "idwt_delta_weight waverec2d self adapter spectrum idx wavelet_family =
    (case lookup (map_of WAVELET_REDUCTIONS) wavelet_family of
       Inl e \<Rightarrow> Inl e
     | Inr red \<Rightarrow>
         (case padded_dense_spectrum self red spectrum idx of
            Inl e \<Rightarrow> Inl e
          | Inr dense_spectrum \<Rightarrow>
              let coeffs = split_subbands (padded_out_features self (fst red))
                             (padded_in_features self (snd red)) dense_spectrum;
                  rec = waverec2d coeffs wavelet_family
              in (case lookup (waveft_scaling self) adapter of
                    Inl e \<Rightarrow> Inl e
                  | Inr scaling \<Rightarrow>
                      Inr (center_crop self (rec\<lparr>vals := scale (vals rec) scaling\<rparr>)))))"

definition get_delta_weight ::
  "('a coeffs \<Rightarrow> string \<Rightarrow> 'a matrix tensor) \<Rightarrow> 'a::{zero,times} layer \<Rightarrow> string \<Rightarrow>
   error + 'a matrix tensor" where
  "get_delta_weight waverec2d self adapter =
    (case lookup (waveft_spectrum self) adapter of
       Inl e \<Rightarrow> Inl e
     | Inr spectrum \<Rightarrow>
    (case lookup (indices self) adapter of
       Inl e \<Rightarrow> Inl e
     | Inr idx \<Rightarrow>
    (case lookup (waveft_wavelet_family self) adapter of
       Inl e \<Rightarrow> Inl e
     | Inr wavelet_family \<Rightarrow>
         if use_idwt self
         then idwt_delta_weight waverec2d self adapter spectrum idx wavelet_family
         else direct_delta_weight self adapter spectrum idx)))"

subsection \<open>WaveFTLinear\<close>

text \<open>Modelled from the spec: \<open>check_adapters_to_merge\<close> of \<open>peft.tuners.tuners_utils\<close> is
  not part of the sources at hand. Given the requested adapter names (or none, meaning all
  active adapters) it returns those that are not merged yet, possibly none. \<open>merge\<close> takes
  the resolution as a parameter; this definition is the one the examples use.\<close>

definition check_adapters_to_merge :: "'a layer \<Rightarrow> string list option \<Rightarrow> string list" where
  "check_adapters_to_merge self adapter_names =
    filter (\<lambda>name. name \<notin> set (merged_adapters self))
      (case adapter_names of None \<Rightarrow> active_adapters self | Some names \<Rightarrow> names)"

text \<open>\<open>merge\<close>: the loop over the resolved names. \<open>isfinite\<close> is \<open>torch.isfinite\<close> on one
  entry. A raise leaves the layer as the iterations before it made it.\<close>

fun merge_loop ::
  "('a coeffs \<Rightarrow> string \<Rightarrow> 'a matrix tensor) \<Rightarrow> ('a \<Rightarrow> bool) \<Rightarrow> bool \<Rightarrow>
   'a::{zero,times,plus} layer \<Rightarrow> string list \<Rightarrow> error option \<times> 'a layer" where
  "merge_loop waverec2d isfinite safe_merge self [] = (None, self)"
| "merge_loop waverec2d isfinite safe_merge self (active_adapter # rest) =
    (if waveft_spectrum self active_adapter \<noteq> None then
       (if safe_merge then
          (case get_delta_weight waverec2d self active_adapter of
             Inl e \<Rightarrow> (Some e, self)
           | Inr delta \<Rightarrow>
               (case iadd (weight self) (vals delta) of
                  Inl e \<Rightarrow> (Some e, self)
                | Inr orig_weights \<Rightarrow>
                    if \<not> list_all (list_all isfinite) orig_weights
                    then (Some (ValueError_nans active_adapter), self)
                    else merge_loop waverec2d isfinite safe_merge
                           (self\<lparr>weight := orig_weights,
                                  merged_adapters := merged_adapters self @ [active_adapter]\<rparr>) rest))
        else
          (case get_delta_weight waverec2d self active_adapter of
             Inl e \<Rightarrow> (Some e, self)
           | Inr delta \<Rightarrow>
               (case iadd (weight self) (vals delta) of
                  Inl e \<Rightarrow> (Some e, self)
                | Inr w \<Rightarrow>
                    merge_loop waverec2d isfinite safe_merge
                      (self\<lparr>weight := w,
                             merged_adapters := merged_adapters self @ [active_adapter]\<rparr>) rest)))
     else merge_loop waverec2d isfinite safe_merge self rest)"

definition merge ::
  "('a layer \<Rightarrow> string list option \<Rightarrow> string list) \<Rightarrow> ('a coeffs \<Rightarrow> string \<Rightarrow> 'a matrix tensor) \<Rightarrow>
   ('a \<Rightarrow> bool) \<Rightarrow> 'a::{zero,times,plus} layer \<Rightarrow> bool \<Rightarrow> string list option \<Rightarrow>
   error option \<times> 'a layer" where
  "merge check waverec2d isfinite self safe_merge adapter_names =
    (let names = check self adapter_names
     in if names = [] then (None, self)
        else merge_loop waverec2d isfinite safe_merge self names)"

text \<open>\<open>unmerge\<close>: the while loop pops the last merged adapter, then subtracts its delta if
  the adapter has a spectrum. The warning of the unmerged case is not part of the state.\<close>

function unmerge_loop ::
  "('a coeffs \<Rightarrow> string \<Rightarrow> 'a matrix tensor) \<Rightarrow> 'a::{zero,times,minus} layer \<Rightarrow>
   error option \<times> 'a layer" where
  "unmerge_loop waverec2d self =
    (if length (merged_adapters self) > 0 then
       let active_adapter = last (merged_adapters self);
           self1 = self\<lparr>merged_adapters := butlast (merged_adapters self)\<rparr>
       in if waveft_spectrum self1 active_adapter \<noteq> None then
            (case get_delta_weight waverec2d self1 active_adapter of
               Inl e \<Rightarrow> (Some e, self1)
             | Inr delta \<Rightarrow>
                 (case isub (weight self1) (vals delta) of
                    Inl e \<Rightarrow> (Some e, self1)
                  | Inr w \<Rightarrow> unmerge_loop waverec2d (self1\<lparr>weight := w\<rparr>)))
          else unmerge_loop waverec2d self1
     else (None, self))"
  by pat_completeness auto
termination
  by (relation "measure (\<lambda>(waverec2d, self). length (merged_adapters self))") auto

declare unmerge_loop.simps [simp del]

definition unmerge ::
  "('a coeffs \<Rightarrow> string \<Rightarrow> 'a matrix tensor) \<Rightarrow> 'a::{zero,times,minus} layer \<Rightarrow>
   error option \<times> 'a layer" where
  "unmerge waverec2d self =
    (if \<not> merged self then (None, self) else unmerge_loop waverec2d self)"

text \<open>\<open>forward\<close>, for a two-dimensional input (batch x in_features). The base layer's
  transform is a parameter that reads the current base weight. \<open>F.linear(x, w)\<close> is
  \<open>x\<close> times the transpose of \<open>w\<close>; \<open>+\<close> on tensors broadcasts and promotes the dtype.\<close>

fun promote_types :: "dtype \<Rightarrow> dtype \<Rightarrow> dtype" where
  "promote_types Float64 _ = Float64"
| "promote_types _ Float64 = Float64"
| "promote_types Float32 _ = Float32"
| "promote_types _ Float32 = Float32"
| "promote_types Float16 Float16 = Float16"
| "promote_types BFloat16 BFloat16 = BFloat16"
| "promote_types _ _ = Float32"

definition F_linear :: "'a::semiring_0 matrix tensor \<Rightarrow> 'a matrix tensor \<Rightarrow> error + 'a matrix tensor" where
  "F_linear x w =
    (if dtype x \<noteq> dtype w then Inl RuntimeError
     else if \<not> list_all (\<lambda>xr. length xr = ncols (vals w)) (vals x) then Inl RuntimeError
     else Inr \<lparr>dtype = dtype x,
               vals = map (\<lambda>xr. map (\<lambda>wr. sum_list (map2 (*) xr wr)) (vals w)) (vals x)\<rparr>)"

definition broadcast_dim :: "nat \<Rightarrow> nat \<Rightarrow> nat option" where
  "broadcast_dim a b =
    (if a = b then Some a else if a = 1 then Some b else if b = 1 then Some a else None)"

definition tensor_add :: "'a::plus matrix tensor \<Rightarrow> 'a matrix tensor \<Rightarrow> error + 'a matrix tensor" where
  "tensor_add A B =
    (case broadcast_dim (nrows (vals A)) (nrows (vals B)) of
       None \<Rightarrow> Inl RuntimeError
     | Some R \<Rightarrow>
         (case broadcast_dim (ncols (vals A)) (ncols (vals B)) of
            None \<Rightarrow> Inl RuntimeError
          | Some C \<Rightarrow>
              Inr \<lparr>dtype = promote_types (dtype A) (dtype B),
                   vals = map2 (map2 (+)) (expand R C (vals A)) (expand R C (vals B))\<rparr>))"

fun forward_loop ::
  "('a coeffs \<Rightarrow> string \<Rightarrow> 'a matrix tensor) \<Rightarrow> 'a::semiring_0 layer \<Rightarrow> 'a matrix tensor \<Rightarrow>
   'a matrix tensor \<Rightarrow> string list \<Rightarrow> error + 'a matrix tensor" where
  "forward_loop waverec2d self x result [] = Inr result"
| "forward_loop waverec2d self x result (active_adapter # rest) =
    (if waveft_spectrum self active_adapter = None
     then forward_loop waverec2d self x result rest
     else
       (case get_delta_weight waverec2d self active_adapter of
          Inl e \<Rightarrow> Inl e
        | Inr delta_w \<Rightarrow>
            (case F_linear (to (dtype delta_w) x) delta_w of
               Inl e \<Rightarrow> Inl e
             | Inr lin \<Rightarrow>
                 (case tensor_add result lin of
                    Inl e \<Rightarrow> Inl e
                  | Inr result' \<Rightarrow>
                      forward_loop waverec2d self (to (dtype delta_w) x) result' rest))))"

definition forward ::
  "('a matrix \<Rightarrow> 'a matrix tensor \<Rightarrow> 'a matrix tensor) \<Rightarrow> ('a coeffs \<Rightarrow> string \<Rightarrow> 'a matrix tensor) \<Rightarrow>
   'a::ring layer \<Rightarrow> 'a matrix tensor \<Rightarrow> (error + 'a matrix tensor) \<times> 'a layer" where
  "forward base_layer waverec2d self x =
    (let previous_dtype = dtype x
     in if disable_adapters self then
          (case (if merged self then unmerge waverec2d self else (None, self)) of
             (Some e, self1) \<Rightarrow> (Inl e, self1)
           | (None, self1) \<Rightarrow> (Inr (to previous_dtype (base_layer (weight self1) x)), self1))
        else if merged self then
          (Inr (to previous_dtype (base_layer (weight self) x)), self)
        else
          (case forward_loop waverec2d self x (base_layer (weight self) x) (active_adapters self) of
             Inl e \<Rightarrow> (Inl e, self)
           | Inr result \<Rightarrow> (Inr (to previous_dtype result), self)))"

text \<open>\<open>WaveFTLinear.__init__\<close>: the layer's \<open>__init__\<close>, the active adapter, \<open>update_layer\<close>.\<close>

definition WaveFTLinear_init ::
  "(int \<Rightarrow> nat \<Rightarrow> nat list) \<Rightarrow> (nat \<Rightarrow> 'a) \<Rightarrow> (nat \<Rightarrow> 'a) \<Rightarrow> dtype \<Rightarrow>
   'a::field base_layer \<Rightarrow> string \<Rightarrow> int \<Rightarrow> 'a \<Rightarrow> bool \<Rightarrow> int \<Rightarrow> string \<Rightarrow> bool \<Rightarrow> error + 'a layer" where
  "WaveFTLinear_init randperm randn empty_init pd b adapter_name n_frequency scaling init_weights
      random_loc_seed wavelet_family idwt =
    (case WaveFTLayer_init b idwt [adapter_name] of
       Inl e \<Rightarrow> Inl e
     | Inr self \<Rightarrow>
         (case update_layer randperm randn empty_init pd self adapter_name n_frequency scaling
                 init_weights random_loc_seed wavelet_family of
            (Some e, _) \<Rightarrow> Inl e
          | (None, self') \<Rightarrow> Inr self'))"

subsection \<open>Configured adapters\<close>

text \<open>An adapter is configured when the layer holds for it what \<open>update_layer\<close> stores:
  a positive \<open>n_frequency\<close>, that many distinct index pairs inside the
  out_features x in_features grid, a spectrum of that length (whatever its values have been
  trained to), a supported wavelet family and a scaling.\<close>

definition in_grid :: "'a layer \<Rightarrow> (nat \<times> nat) list \<Rightarrow> bool" where
  "in_grid self idx = list_all (\<lambda>(r, c). r < out_features self \<and> c < in_features self) idx"

definition configured :: "'a layer \<Rightarrow> string \<Rightarrow> bool" where
  "configured self adapter =
    (case (waveft_n_frequency self adapter, waveft_spectrum self adapter, indices self adapter,
           waveft_wavelet_family self adapter, waveft_scaling self adapter) of
       (Some n, Some sp, Some idx, Some fam, Some s) \<Rightarrow>
          0 < n \<and> length idx = nat n \<and> length (vals sp) = nat n \<and> distinct idx \<and>
          in_grid self idx \<and> map_of WAVELET_REDUCTIONS fam \<noteq> None
     | _ \<Rightarrow> False)"

subsection \<open>Examples\<close>

text \<open>A stand-in for \<open>torch.randperm\<close> (a rotation of the range), stand-ins for
  \<open>torch.randn\<close> and \<open>torch.empty\<close>, a fresh 2 x 3 layer over the rationals and the same
  layer with one adapter in direct mode.\<close>

definition example_randperm :: "int \<Rightarrow> nat \<Rightarrow> nat list" where
  "example_randperm seed m = rotate (nat (seed mod int m)) [0..<m]"

definition example_randn :: "nat \<Rightarrow> rat" where
  "example_randn i = of_nat i - 1"

definition example_empty :: "nat \<Rightarrow> rat" where
  "example_empty i = 7"

definition example_fresh :: "rat layer" where
  "example_fresh =
    \<lparr>in_features = 3, out_features = 2, weight = [[1, 2, 3], [4, 5, 6]],
     waveft_n_frequency = Map.empty, waveft_scaling = Map.empty,
     waveft_spectrum = Map.empty, waveft_wavelet_family = Map.empty,
     indices = Map.empty, waveft_random_loc_seed = Map.empty,
     disable_adapters = False, merged_adapters = [],
     use_idwt = True, active_adapters = [''default'']\<rparr>"

definition example_direct :: "rat layer" where
  "example_direct =
    \<lparr>in_features = 3, out_features = 2, weight = [[1, 2, 3], [4, 5, 6]],
     waveft_n_frequency = [''default'' \<mapsto> 4], waveft_scaling = [''default'' \<mapsto> 2],
     waveft_spectrum = [''default'' \<mapsto> \<lparr>dtype = Float32, vals = [5, 7, 11, 13]\<rparr>],
     waveft_wavelet_family = [''default'' \<mapsto> ''db2''],
     indices = [''default'' \<mapsto> [(1, 0), (1, 1), (1, 2), (0, 0)]],
     waveft_random_loc_seed = [''default'' \<mapsto> 777],
     disable_adapters = False, merged_adapters = [],
     use_idwt = False, active_adapters = [''default'']\<rparr>"

definition example_idwt :: "rat layer" where
  "example_idwt = example_direct\<lparr>use_idwt := True\<rparr>"

text \<open>A stand-in for \<open>waverec2d\<close>: the four sub-bands put back side by side, which gives
  twice the rows and columns of a sub-band. A stand-in for \<open>torch.isfinite\<close> over the
  rationals: an entry of magnitude 1000 or more counts as overflowed.\<close>

definition join_subbands :: "'a coeffs \<Rightarrow> string \<Rightarrow> 'a matrix tensor" where
  "join_subbands coeffs wavelet_family =
    (case coeffs of (cA, (cH, cV, cD)) \<Rightarrow>
       \<lparr>dtype = dtype cA,
        vals = map2 (@) (vals cA) (vals cH) @ map2 (@) (vals cV) (vals cD)\<rparr>)"

definition example_isfinite :: "rat \<Rightarrow> bool" where
  "example_isfinite v = (\<bar>v\<bar> < 1000)"

text \<open>A layer with two adapters in direct mode, the first of them merged, and the same
  layer before that merge.\<close>

definition example_two :: "rat layer" where
  "example_two =
    \<lparr>in_features = 3, out_features = 2, weight = [[27, 2, 3], [14, 19, 28]],
     waveft_n_frequency = [''default'' \<mapsto> 4, ''other'' \<mapsto> 1],
     waveft_scaling = [''default'' \<mapsto> 2, ''other'' \<mapsto> 3],
     waveft_spectrum = [''default'' \<mapsto> \<lparr>dtype = Float32, vals = [5, 7, 11, 13]\<rparr>,
                        ''other'' \<mapsto> \<lparr>dtype = Float32, vals = [400]\<rparr>],
     waveft_wavelet_family = [''default'' \<mapsto> ''db2'', ''other'' \<mapsto> ''db1''],
     indices = [''default'' \<mapsto> [(1, 0), (1, 1), (1, 2), (0, 0)], ''other'' \<mapsto> [(0, 1)]],
     waveft_random_loc_seed = [''default'' \<mapsto> 777, ''other'' \<mapsto> 5],
     disable_adapters = False, merged_adapters = [''default''],
     use_idwt = False, active_adapters = [''default'', ''other'']\<rparr>"

definition example_two_unmerged :: "rat layer" where
  "example_two_unmerged = example_two\<lparr>weight := [[1, 2, 3], [4, 5, 6]], merged_adapters := []\<rparr>"

subsection \<open>The contract of the reconstruction primitive\<close>

text \<open>What the specification assumes of \<open>waverec2d\<close>. Shape: from four sub-bands of shape
  (r, c) the reconstruction returns a matrix with at least 2r rows and 2c columns. Zero:
  from all-zero sub-bands it returns an all-zero matrix.\<close>

definition waverec2d_shape :: "('a coeffs \<Rightarrow> string \<Rightarrow> 'a matrix tensor) \<Rightarrow> bool" where
  "waverec2d_shape waverec2d =
    (\<forall>cA cH cV cD wavelet_family r c.
       is_matrix r c (vals cA) \<and> is_matrix r c (vals cH) \<and>
       is_matrix r c (vals cV) \<and> is_matrix r c (vals cD) \<longrightarrow>
       (\<exists>R C. 2 * r \<le> R \<and> 2 * c \<le> C \<and>
          is_matrix R C (vals (waverec2d (cA, (cH, cV, cD)) wavelet_family))))"



subsection \<open>Sequences of calls\<close>

text \<open>The life of a layer is a sequence of calls on it. The primitives that come from
  outside are collected in one record. Besides the methods of the layer, the surrounding
  framework trains a spectrum (new values of the same length), sets the active adapters
  and enables or disables the adapters. \<open>call_layer\<close> gives the layer after a call, whether
  the call returned or raised.\<close>

record 'a externals =
  ext_randperm :: "int \<Rightarrow> nat \<Rightarrow> nat list"
  ext_randn :: "nat \<Rightarrow> 'a"
  ext_empty :: "nat \<Rightarrow> 'a"
  ext_dtype :: dtype
  ext_check :: "'a layer \<Rightarrow> string list option \<Rightarrow> string list"
  ext_waverec2d :: "'a coeffs \<Rightarrow> string \<Rightarrow> 'a matrix tensor"
  ext_isfinite :: "'a \<Rightarrow> bool"
  ext_base_layer :: "'a matrix \<Rightarrow> 'a matrix tensor \<Rightarrow> 'a matrix tensor"

datatype 'a call =
    Update_layer string int 'a bool int string
  | Merge bool "string list option"
  | Unmerge
  | Forward "'a matrix tensor"
  | Train string "'a list"
  | Set_adapter "string list"
  | Enable_adapters bool

fun call_layer :: "'a::field externals \<Rightarrow> 'a layer \<Rightarrow> 'a call \<Rightarrow> 'a layer" where
  "call_layer ext self (Update_layer adapter_name n_frequency scaling init_weights seed family) =
     snd (update_layer (ext_randperm ext) (ext_randn ext) (ext_empty ext) (ext_dtype ext) self
            adapter_name n_frequency scaling init_weights seed family)"
| "call_layer ext self (Merge safe_merge adapter_names) =
     snd (merge (ext_check ext) (ext_waverec2d ext) (ext_isfinite ext) self safe_merge adapter_names)"
| "call_layer ext self Unmerge = snd (unmerge (ext_waverec2d ext) self)"
| "call_layer ext self (Forward x) = snd (forward (ext_base_layer ext) (ext_waverec2d ext) self x)"
| "call_layer ext self (Train adapter_name vs) =
     (case waveft_spectrum self adapter_name of
        None \<Rightarrow> self
      | Some sp \<Rightarrow>
          if length vs = length (vals sp)
          then self\<lparr>waveft_spectrum := (waveft_spectrum self)(adapter_name \<mapsto> sp\<lparr>vals := vs\<rparr>)\<rparr>
          else self)"
| "call_layer ext self (Set_adapter adapter_names) = self\<lparr>active_adapters := adapter_names\<rparr>"
| "call_layer ext self (Enable_adapters enabled) = self\<lparr>disable_adapters := \<not> enabled\<rparr>"

definition run_calls :: "'a::field externals \<Rightarrow> 'a layer \<Rightarrow> 'a call list \<Rightarrow> 'a layer" where
  "run_calls ext self calls = foldl (call_layer ext) self calls"

definition merged_configured :: "'a layer \<Rightarrow> bool" where
  "merged_configured self = list_all (\<lambda>name. waveft_spectrum self name \<noteq> None) (merged_adapters self)"

subsection \<open>The dispatch of \<open>forward\<close> as the specification words it\<close>



text \<open>A base transform for the examples (the linear map of the base weight, without bias),
  the record of the stand-ins, the layer that \<open>WaveFTLinear.__init__\<close> builds from them,
  and an input.\<close>

definition example_base :: "rat matrix \<Rightarrow> rat matrix tensor \<Rightarrow> rat matrix tensor" where
  "example_base W x =
    (case F_linear x \<lparr>dtype = dtype x, vals = W\<rparr> of Inl e \<Rightarrow> x | Inr result \<Rightarrow> result)"

definition example_externals :: "rat externals" where
  "example_externals =
    \<lparr>ext_randperm = example_randperm, ext_randn = example_randn, ext_empty = example_empty,
     ext_dtype = Float32, ext_check = check_adapters_to_merge, ext_waverec2d = join_subbands,
     ext_isfinite = example_isfinite, ext_base_layer = example_base\<rparr>"

definition example_init :: "rat layer" where
  "example_init =
    snd (update_layer example_randperm example_randn example_empty Float32 example_fresh
           ''default'' 4 2 False 777 ''db2'')"

definition example_x :: "rat matrix tensor" where
  "example_x = \<lparr>dtype = Float16, vals = [[1, 0, 0], [0, 1, 1]]\<rparr>"

section \<open>Verification\<close>

subsection \<open>Matrices and indexed assignment\<close>

lemma is_matrix_nth: "is_matrix R C M \<Longrightarrow> r < R \<Longrightarrow> length (M ! r) = C"
  by (auto simp: is_matrix_def list_all_length)

lemma is_matrix_zeros: "is_matrix R C (zeros R C)"
  by (simp add: is_matrix_def zeros_def list_all_iff)

lemma is_matrix_ncols: "is_matrix R C M \<Longrightarrow> 0 < R \<Longrightarrow> ncols M = C"
  by (cases M) (auto simp: is_matrix_def ncols_def)

lemma is_matrix_nrows: "is_matrix R C M \<Longrightarrow> nrows M = R"
  by (simp add: is_matrix_def nrows_def)

lemma put_is_matrix: "is_matrix R C M \<Longrightarrow> is_matrix R C (put M ((r, c), v))"
proof -
  assume m: "is_matrix R C M"
  show ?thesis
  proof (cases "r < R")
    case True
    have "\<And>x. x \<in> set (M[r := (M ! r)[c := v]]) \<Longrightarrow> length x = C"
    proof -
      fix x assume "x \<in> set (M[r := (M ! r)[c := v]])"
      then have "x \<in> insert ((M ! r)[c := v]) (set M)"
        using set_update_subset_insert by fastforce
      then show "length x = C"
        using m True by (auto simp: is_matrix_def list_all_iff is_matrix_nth[OF m])
    qed
    then show ?thesis using m by (simp add: put_def is_matrix_def list_all_iff)
  next
    case False
    then have "M[r := (M ! r)[c := v]] = M" using m by (simp add: is_matrix_def list_update_beyond)
    then show ?thesis using m by (simp add: put_def)
  qed
qed

lemma put_nth:
  assumes "is_matrix R C M" "r < R" "c < C" "r' < R" "c' < C"
  shows "put M ((r, c), v) ! r' ! c' = (if r' = r \<and> c' = c then v else M ! r' ! c')"
proof -
  have l: "length M = R" using assms(1) by (simp add: is_matrix_def)
  have lr: "length (M ! r) = C" using assms by (simp add: is_matrix_nth)
  show ?thesis using assms l lr by (auto simp: put_def nth_list_update)
qed

lemma foldl_put_is_matrix:
  "is_matrix R C M \<Longrightarrow> is_matrix R C (foldl put M (zip idx vs))"
proof (induction idx arbitrary: M vs)
  case Nil
  then show ?case by simp
next
  case (Cons p ps)
  show ?case
  proof (cases vs)
    case Nil
    then show ?thesis using Cons.prems by simp
  next
    case (Cons v vs')
    obtain r c where p: "p = (r, c)" by (cases p)
    have "is_matrix R C (put M ((r, c), v))" using Cons.prems by (rule put_is_matrix)
    then show ?thesis using Cons.IH[of "put M ((r, c), v)" vs'] Cons p by simp
  qed
qed

lemma foldl_put_other:
  assumes "is_matrix R C M" "list_all (\<lambda>(r, c). r < R \<and> c < C) idx"
    "(r', c') \<notin> set idx" "r' < R" "c' < C"
  shows "foldl put M (zip idx vs) ! r' ! c' = M ! r' ! c'"
  using assms
proof (induction idx arbitrary: M vs)
  case Nil
  then show ?case by simp
next
  case (Cons p ps)
  show ?case
  proof (cases vs)
    case Nil
    then show ?thesis by simp
  next
    case (Cons v vs')
    obtain r c where p: "p = (r, c)" by (cases p)
    have rc: "r < R" "c < C" "(r', c') \<noteq> (r, c)" using Cons.prems p by auto
    have m: "is_matrix R C (put M ((r, c), v))" using Cons.prems(1) by (rule put_is_matrix)
    have "foldl put (put M ((r, c), v)) (zip ps vs') ! r' ! c' = put M ((r, c), v) ! r' ! c'"
      using Cons.IH[OF m] Cons.prems by simp
    also have "\<dots> = M ! r' ! c'"
      using put_nth[OF Cons.prems(1) rc(1,2) Cons.prems(4,5)] rc(3) by auto
    finally show ?thesis using Cons p by simp
  qed
qed

lemma foldl_put_written:
  assumes "is_matrix R C M" "list_all (\<lambda>(r, c). r < R \<and> c < C) idx"
    "distinct idx" "length vs = length idx" "i < length idx"
  shows "foldl put M (zip idx vs) ! fst (idx ! i) ! snd (idx ! i) = vs ! i"
  using assms
proof (induction idx arbitrary: M vs i)
  case Nil
  then show ?case by simp
next
  case (Cons p ps)
  obtain v vs' where vs: "vs = v # vs'" using Cons.prems(4) by (cases vs) auto
  obtain r c where p: "p = (r, c)" by (cases p)
  have rc: "r < R" "c < C" using Cons.prems(2) p by auto
  have m: "is_matrix R C (put M ((r, c), v))" using Cons.prems(1) by (rule put_is_matrix)
  have ps: "list_all (\<lambda>(r, c). r < R \<and> c < C) ps" "distinct ps" "length vs' = length ps"
    using Cons.prems vs by auto
  show ?case
  proof (cases i)
    case 0
    have "(r, c) \<notin> set ps" using Cons.prems(3) p by simp
    then have "foldl put (put M ((r, c), v)) (zip ps vs') ! r ! c = put M ((r, c), v) ! r ! c"
      using foldl_put_other[OF m ps(1) _ rc] by blast
    also have "\<dots> = v" using put_nth[OF Cons.prems(1) rc rc] by simp
    finally show ?thesis using 0 vs p by simp
  next
    case (Suc j)
    then have "j < length ps" using Cons.prems(5) by simp
    from Cons.IH[OF m ps this] show ?thesis using Suc vs p by simp
  qed
qed

lemma scale_is_matrix: "is_matrix R C M \<Longrightarrow> is_matrix R C (scale M s)"
  by (simp add: is_matrix_def scale_def list_all_iff)

lemma scale_nth: "is_matrix R C M \<Longrightarrow> r < R \<Longrightarrow> c < C \<Longrightarrow> scale M s ! r ! c = M ! r ! c * s"
proof -
  assume m: "is_matrix R C M" and r: "r < R" and c: "c < C"
  have "length M = R" using m by (simp add: is_matrix_def)
  moreover have "length (M ! r) = C" using m r by (rule is_matrix_nth)
  ultimately show ?thesis using r c by (simp add: scale_def)
qed

lemma zeros_nth: "r < R \<Longrightarrow> c < C \<Longrightarrow> zeros R C ! r ! c = 0"
  by (simp add: zeros_def)



lemma configuredE:
  assumes "configured self a"
  obtains n sp idx fam s where
    "waveft_n_frequency self a = Some n" "waveft_spectrum self a = Some sp"
    "indices self a = Some idx" "waveft_wavelet_family self a = Some fam"
    "waveft_scaling self a = Some s" "0 < n" "length idx = nat n" "length (vals sp) = nat n"
    "distinct idx" "in_grid self idx" "map_of WAVELET_REDUCTIONS fam \<noteq> None"
  using assms by (auto simp: configured_def split: option.splits)

lemma in_grid_pos:
  assumes "in_grid self idx" "idx \<noteq> []"
  shows "0 < out_features self \<and> 0 < in_features self"
proof -
  obtain r c ps where "idx = (r, c) # ps" using assms(2) by (cases idx) auto
  then show ?thesis using assms(1) by (auto simp: in_grid_def)
qed

lemma index_put_ok:
  assumes "is_matrix R C M" "list_all (\<lambda>(r, c). r < R \<and> c < C) idx" "length vs = length idx"
  shows "index_put M idx vs = Inr (foldl put M (zip idx vs))"
proof (cases "idx = []")
  case True
  then show ?thesis using assms by (simp add: index_put_def)
next
  case False
  then obtain r c ps where i: "idx = (r, c) # ps" by (cases idx) auto
  then have "0 < R" using assms(2) by auto
  then have "ncols M = C" "nrows M = R"
    using assms(1) by (simp_all add: is_matrix_ncols is_matrix_nrows)
  then show ?thesis using assms by (simp add: index_put_def)
qed

subsection \<open>Index generation and validation in \<open>update_layer\<close>\<close>

lemma perm_distinct:
  assumes "mset p = mset [0..<m]"
  shows "distinct p \<and> set p = {0..<m}"
proof -
  have "distinct p \<longleftrightarrow> distinct [0..<m]" using assms by (rule mset_eq_imp_distinct_iff)
  moreover have "set p = set [0..<m]" using assms by (rule mset_eq_setD)
  ultimately show ?thesis by simp
qed

lemma divmod_inj:
  fixes w :: nat
  assumes "(a div w, a mod w) = (b div w, b mod w)"
  shows "a = b"
proof -
  have "a = a div w * w + a mod w" by simp
  also have "\<dots> = b div w * w + b mod w" using assms by simp
  also have "\<dots> = b" by simp
  finally show ?thesis .
qed

lemma grid_indices:
  assumes p: "mset p = mset [0..<out * w]"
  shows "distinct (map (\<lambda>v. (v div w, v mod w)) (take k p)) \<and>
         list_all (\<lambda>(r, c). r < out \<and> c < w) (map (\<lambda>v. (v div w, v mod w)) (take k p))"
proof -
  from perm_distinct[OF p] have d: "distinct p" and s: "set p = {0..<out * w}" by auto
  have "inj_on (\<lambda>v. (v div w, v mod w)) (set (take k p))"
    by (rule inj_onI) (rule divmod_inj)
  with d have 1: "distinct (map (\<lambda>v. (v div w, v mod w)) (take k p))"
    by (simp add: distinct_map)
  have "\<And>v. v \<in> set (take k p) \<Longrightarrow> v div w < out \<and> v mod w < w"
  proof -
    fix v assume "v \<in> set (take k p)"
    then have "v \<in> set p" by (rule in_set_takeD)
    with s have lt: "v < out * w" by simp
    then have "0 < w" by (cases w) auto
    moreover from lt have "v div w < out" by (simp add: less_mult_imp_div_less)
    ultimately show "v div w < out \<and> v mod w < w" by simp
  qed
  then have 2: "list_all (\<lambda>(r, c). r < out \<and> c < w) (map (\<lambda>v. (v div w, v mod w)) (take k p))"
    by (simp add: list_all_iff)
  from 1 2 show ?thesis by simp
qed

lemma update_layer_ok:
  assumes "0 < n" "n \<le> int (in_features self * out_features self)"
    "map_of WAVELET_REDUCTIONS fam \<noteq> None"
  shows "fst (update_layer randperm randn empty_init pd self name n scaling iw seed fam) = None"
    and "indices (snd (update_layer randperm randn empty_init pd self name n scaling iw seed fam)) name
       = Some (map (\<lambda>v. (v div in_features self, v mod in_features self))
            (take (nat n) (randperm seed (out_features self * in_features self))))"
  using assms by (auto simp: update_layer_def Let_def reset_wave_parameters_def)

lemma mset_rotate_eq: "mset (rotate k xs) = mset xs"
proof -
  let ?j = "k mod length xs"
  have "mset (rotate k xs) = mset (drop ?j xs) + mset (take ?j xs)"
    by (simp add: rotate_drop_take)
  also have "\<dots> = mset (take ?j xs @ drop ?j xs)"
    by (simp only: mset_append add.commute)
  finally show ?thesis by simp
qed

lemma example_randperm_permutes: "mset (example_randperm seed m) = mset [0..<m]"
  by (simp add: example_randperm_def mset_rotate_eq)

lemma db2_supported: "''db2'' \<in> set (map fst WAVELET_REDUCTIONS)"
  by (simp add: WAVELET_REDUCTIONS_def)


lemma db2_reduction: "map_of WAVELET_REDUCTIONS ''db2'' = Some (2, 2)"
  by (simp add: WAVELET_REDUCTIONS_def)

text \<open>C3: for valid \<open>(out_features, in_features, n_frequency, seed)\<close>, with \<open>torch.randperm\<close>
  returning a permutation of the range, \<open>update_layer\<close> succeeds and stores as indices the
  first \<open>n_frequency\<close> values of the permutation of \<open>[0, out_features * in_features)\<close> for the
  seed, each split into (value div in_features, value mod in_features). These are exactly
  \<open>n_frequency\<close> distinct pairs inside the grid, and another call with the same seed,
  \<open>n_frequency\<close> and grid size (on any layer, for any adapter name) stores the same indices.\<close>

theorem update_layer_indices:
  fixes self :: "'a::field layer" and self2 :: "'b::field layer"
  assumes perm: "\<forall>m. mset (randperm seed m) = mset [0..<m]"
    and n: "0 < n" "n \<le> int (in_features self * out_features self)"
    and fam: "fam \<in> set (map fst WAVELET_REDUCTIONS)"
    and fam2: "fam2 \<in> set (map fst WAVELET_REDUCTIONS)"
    and grid: "in_features self2 = in_features self" "out_features self2 = out_features self"
  shows "\<exists>self' idx.
      update_layer randperm randn empty_init pd self name n scaling iw seed fam = (None, self') \<and>
      indices self' name = Some idx \<and>
      idx = map (\<lambda>v. (v div in_features self, v mod in_features self))
              (take (nat n) (randperm seed (out_features self * in_features self))) \<and>
      length idx = nat n \<and> distinct idx \<and>
      list_all (\<lambda>(r, c). r < out_features self \<and> c < in_features self) idx \<and>
      indices (snd (update_layer randperm randn2 empty_init2 pd2 self2 name2 n scaling2 iw2 seed fam2)) name2
        = Some idx"
proof -
  let ?p = "randperm seed (out_features self * in_features self)"
  let ?idx = "map (\<lambda>v. (v div in_features self, v mod in_features self)) (take (nat n) ?p)"
  let ?res = "update_layer randperm randn empty_init pd self name n scaling iw seed fam"
  have f1: "map_of WAVELET_REDUCTIONS fam \<noteq> None" using fam by (simp add: map_of_eq_None_iff)
  have f2: "map_of WAVELET_REDUCTIONS fam2 \<noteq> None" using fam2 by (simp add: map_of_eq_None_iff)
  have p: "mset ?p = mset [0..<out_features self * in_features self]" using perm by blast
  have len: "length ?p = out_features self * in_features self"
    using p by (metis length_upt mset_eq_length diff_zero)
  have "nat n \<le> in_features self * out_features self" using n(2) by linarith
  then have "nat n \<le> length ?p" using len by (simp add: mult.commute)
  then have l: "length ?idx = nat n" by simp
  from grid_indices[OF p, of "nat n"] have
    d: "distinct ?idx" and r: "list_all (\<lambda>(r, c). r < out_features self \<and> c < in_features self) ?idx"
    by auto
  have a: "fst ?res = None" and b: "indices (snd ?res) name = Some ?idx"
    using update_layer_ok[OF n f1] by auto
  have n2: "n \<le> int (in_features self2 * out_features self2)" using n grid by simp
  have c: "indices (snd (update_layer randperm randn2 empty_init2 pd2 self2 name2 n scaling2 iw2 seed fam2)) name2
        = Some ?idx"
    using update_layer_ok(2)[OF n(1) n2 f2] grid by simp
  have "?res = (None, snd ?res)" using a by (simp add: prod_eq_iff)
  with b l d r c show ?thesis by blast
qed

theorem update_layer_indices_witness:
  "\<exists>self' idx.
      update_layer example_randperm example_randn example_empty Float32 example_fresh
         ''default'' 4 2 False 777 ''db2'' = (None, self') \<and>
      indices self' ''default'' = Some idx \<and>
      idx = [(1, 0), (1, 1), (1, 2), (0, 0)] \<and>
      length idx = 4 \<and> distinct idx \<and>
      list_all (\<lambda>(r, c). r < 2 \<and> c < 3) idx \<and>
      indices (snd (update_layer example_randperm example_randn example_empty Float64 example_direct
         ''other'' 4 5 True 777 ''db1'')) ''other'' = Some idx"
proof -
  have p: "\<forall>m. mset (example_randperm 777 m) = mset [0..<m]"
    by (simp add: example_randperm_permutes)
  have n: "(0::int) < 4" "(4::int) \<le> int (in_features example_fresh * out_features example_fresh)"
    by (simp_all add: example_fresh_def)
  have g: "in_features example_direct = in_features example_fresh"
    "out_features example_direct = out_features example_fresh"
    by (simp_all add: example_fresh_def example_direct_def)
  have db1: "''db1'' \<in> set (map fst WAVELET_REDUCTIONS)" by (simp add: WAVELET_REDUCTIONS_def)
  have e: "map (\<lambda>v. (v div 3, v mod 3)) (take 4 (example_randperm 777 6))
             = [(1, 0), (1, 1), (1, 2), (0, 0)]"
    by code_simp
  show ?thesis
    using update_layer_indices[of example_randperm 777 4 example_fresh "''db2''" "''db1''"
        example_direct example_randn example_empty Float32 "''default''" 2 False example_randn
        example_empty Float64 "''other''" 5 True, OF p n db2_supported db1 g] e
    by (simp add: example_fresh_def)
qed



subsection \<open>The delta weight in direct mode\<close>

text \<open>C4: with \<open>use_idwt\<close> false, \<open>get_delta_weight\<close> of a configured adapter returns a matrix
  of shape (out_features, in_features) whose entry at the i-th index pair is
  \<open>spectrum[i] * scaling\<close>, for every i below \<open>n_frequency\<close>, and whose every other entry
  is zero.\<close>

theorem direct_delta_weight_entries:
  fixes self :: "'a::field layer"
  assumes cfg: "configured self adapter" and direct: "\<not> use_idwt self"
  shows "\<exists>D idx sp s.
      get_delta_weight waverec2d self adapter = Inr D \<and>
      indices self adapter = Some idx \<and> waveft_spectrum self adapter = Some sp \<and>
      waveft_scaling self adapter = Some s \<and>
      is_matrix (out_features self) (in_features self) (vals D) \<and>
      (\<forall>i < length idx. vals D ! fst (idx ! i) ! snd (idx ! i) = vals sp ! i * s) \<and>
      (\<forall>r < out_features self. \<forall>c < in_features self. (r, c) \<notin> set idx \<longrightarrow> vals D ! r ! c = 0)"
proof -
  from cfg obtain n sp idx fam s where
    c: "waveft_n_frequency self adapter = Some n" "waveft_spectrum self adapter = Some sp"
    "indices self adapter = Some idx" "waveft_wavelet_family self adapter = Some fam"
    "waveft_scaling self adapter = Some s" "0 < n" "length idx = nat n" "length (vals sp) = nat n"
    "distinct idx" "in_grid self idx" "map_of WAVELET_REDUCTIONS fam \<noteq> None"
    by (rule configuredE)
  let ?R = "out_features self" and ?C = "in_features self"
  let ?dense = "foldl put (zeros ?R ?C) (zip idx (vals sp))"
  let ?D = "\<lparr>dtype = dtype sp, vals = scale ?dense s\<rparr>"
  have g: "list_all (\<lambda>(r, c). r < ?R \<and> c < ?C) idx" using c(10) by (simp add: in_grid_def)
  have len: "length (vals sp) = length idx" using c(7,8) by simp
  have z: "is_matrix ?R ?C (zeros ?R ?C)" by (rule is_matrix_zeros)
  have ip: "index_put (zeros ?R ?C) idx (vals sp) = Inr ?dense"
    using index_put_ok[OF z g len] .
  have gd: "get_delta_weight waverec2d self adapter = Inr ?D"
    using c(2,3,4,5) direct ip
    by (simp add: get_delta_weight_def lookup_def direct_delta_weight_def)
  have dm: "is_matrix ?R ?C ?dense" using z by (rule foldl_put_is_matrix)
  have m: "is_matrix ?R ?C (vals ?D)" using dm by (simp add: scale_is_matrix)
  have w: "\<forall>i < length idx. vals ?D ! fst (idx ! i) ! snd (idx ! i) = vals sp ! i * s"
  proof (intro allI impI)
    fix i assume i: "i < length idx"
    then have "idx ! i \<in> set idx" by simp
    then have rc: "fst (idx ! i) < ?R" "snd (idx ! i) < ?C"
      using g by (auto simp: list_all_iff)
    have "?dense ! fst (idx ! i) ! snd (idx ! i) = vals sp ! i"
      using foldl_put_written[OF z g c(9) len i] .
    then show "vals ?D ! fst (idx ! i) ! snd (idx ! i) = vals sp ! i * s"
      using scale_nth[OF dm rc] by simp
  qed
  have o: "\<forall>r < ?R. \<forall>c < ?C. (r, c) \<notin> set idx \<longrightarrow> vals ?D ! r ! c = 0"
  proof (intro allI impI)
    fix r c assume rc: "r < ?R" "c < ?C" and n: "(r, c) \<notin> set idx"
    have "?dense ! r ! c = zeros ?R ?C ! r ! c"
      using foldl_put_other[OF z g n rc] .
    then have "?dense ! r ! c = 0" using rc by (simp add: zeros_nth)
    then show "vals ?D ! r ! c = 0" using scale_nth[OF dm rc] by simp
  qed
  from gd c(2,3,5) m w o show ?thesis by blast
qed

theorem direct_delta_weight_entries_witness:
  "configured example_direct ''default'' \<and> \<not> use_idwt example_direct \<and>
   (\<exists>D. get_delta_weight join_subbands example_direct ''default'' = Inr D \<and>
      is_matrix 2 3 (vals D) \<and>
      vals D ! 1 ! 0 = 5 * 2 \<and> vals D ! 1 ! 1 = 7 * 2 \<and> vals D ! 1 ! 2 = 11 * 2 \<and>
      vals D ! 0 ! 0 = 13 * 2 \<and> vals D ! 0 ! 1 = 0 \<and> vals D ! 0 ! 2 = 0)"
proof -
  have c: "configured example_direct ''default''"
    by (simp add: configured_def example_direct_def in_grid_def WAVELET_REDUCTIONS_def)
  have d: "\<not> use_idwt example_direct" by (simp add: example_direct_def)
  from direct_delta_weight_entries[OF c d, of join_subbands] obtain D idx sp s where
    r: "get_delta_weight join_subbands example_direct ''default'' = Inr D"
      "indices example_direct ''default'' = Some idx"
      "waveft_spectrum example_direct ''default'' = Some sp"
      "waveft_scaling example_direct ''default'' = Some s"
      "is_matrix (out_features example_direct) (in_features example_direct) (vals D)"
      "\<forall>i < length idx. vals D ! fst (idx ! i) ! snd (idx ! i) = vals sp ! i * s"
      "\<forall>r < out_features example_direct. \<forall>c < in_features example_direct.
          (r, c) \<notin> set idx \<longrightarrow> vals D ! r ! c = 0"
    by blast
  have i: "idx = [(1, 0), (1, 1), (1, 2), (0, 0)]" "vals sp = [5, 7, 11, 13]" "s = 2"
    using r(2,3,4) by (auto simp: example_direct_def)
  have f: "out_features example_direct = 2" "in_features example_direct = 3"
    by (simp_all add: example_direct_def)
  have "vals D ! 1 ! 0 = 5 * 2" using r(6)[rule_format, of 0] i by simp
  moreover have "vals D ! 1 ! 1 = 7 * 2" using r(6)[rule_format, of 1] i by simp
  moreover have "vals D ! 1 ! 2 = 11 * 2" using r(6)[rule_format, of 2] i by simp
  moreover have "vals D ! 0 ! 0 = 13 * 2" using r(6)[rule_format, of 3] i by simp
  moreover have "vals D ! 0 ! 1 = 0" using r(7)[rule_format, of 0 1] i f by simp
  moreover have "vals D ! 0 ! 2 = 0" using r(7)[rule_format, of 0 2] i f by simp
  ultimately show ?thesis using c d r(1,5) f by auto
qed

subsection \<open>The padded spectrum in IDWT mode\<close>

lemma make_even_ge: "n \<le> make_even n"
  by (simp add: make_even_def)

lemma make_even_even: "make_even n mod 2 = 0"
  by (simp add: make_even_def) presburger

lemma offset_in_range:
  fixes r :: nat
  assumes "r < n" "n \<le> p"
  shows "r + (p - n) div 2 < p"
proof -
  have "(p - n) div 2 \<le> p - n" by simp
  then show ?thesis using assms by linarith
qed

lemma padded_out_ge: "out_features self \<le> padded_out_features self rr"
  using make_even_ge[of "out_features self + rr"] by (simp add: padded_out_features_def)

lemma padded_in_ge: "in_features self \<le> padded_in_features self rc"
  using make_even_ge[of "in_features self + rc"] by (simp add: padded_in_features_def)

lemma padded_indices_valid:
  assumes "in_grid self idx"
  shows "list_all (\<lambda>(r, c). r < padded_out_features self (fst red) \<and>
                           c < padded_in_features self (snd red)) (padded_indices self red idx)"
proof -
  have "\<And>r c. (r, c) \<in> set idx \<Longrightarrow>
      r + row_offset self (fst red) < padded_out_features self (fst red) \<and>
      c + col_offset self (snd red) < padded_in_features self (snd red)"
  proof -
    fix r c assume "(r, c) \<in> set idx"
    then have "r < out_features self" "c < in_features self"
      using assms by (auto simp: in_grid_def list_all_iff)
    then show "r + row_offset self (fst red) < padded_out_features self (fst red) \<and>
      c + col_offset self (snd red) < padded_in_features self (snd red)"
      using offset_in_range[OF _ padded_out_ge, of r self "fst red"]
        offset_in_range[OF _ padded_in_ge, of c self "snd red"]
      by (simp add: row_offset_def col_offset_def)
  qed
  then show ?thesis by (auto simp: padded_indices_def list_all_iff)
qed

lemma valid_mask_all:
  assumes "in_grid self idx"
  shows "valid_mask self red idx = replicate (length idx) True"
proof -
  have "\<forall>p \<in> set (padded_indices self red idx).
          (case p of (r, c) \<Rightarrow> r < padded_out_features self (fst red) \<and>
                               c < padded_in_features self (snd red))"
    using padded_indices_valid[OF assms, of red] by (simp add: list_all_iff)
  then have "valid_mask self red idx = map (\<lambda>_. True) (padded_indices self red idx)"
    unfolding valid_mask_def by (intro map_cong) auto
  then show ?thesis by (simp add: map_replicate_const padded_indices_def)
qed

lemma select_all: "length xs = n \<Longrightarrow> map snd (filter fst (zip (replicate n True) xs)) = xs"
proof (induction xs arbitrary: n)
  case Nil
  then show ?case by simp
next
  case (Cons x xs)
  then obtain m where "n = Suc m" "length xs = m" by (cases n) auto
  then show ?case using Cons.IH[of m] by simp
qed

lemma mask_select_all: "length xs = n \<Longrightarrow> mask_select (replicate n True) xs = Inr xs"
  by (simp add: mask_select_def select_all)

lemma padded_indices_distinct:
  assumes "distinct idx"
  shows "distinct (padded_indices self red idx)"
proof -
  have "inj_on (\<lambda>(r, c). (r + row_offset self (fst red), c + col_offset self (snd red))) (set idx)"
    by (auto simp: inj_on_def)
  then show ?thesis
    using assms unfolding padded_indices_def by (simp add: distinct_map)
qed

lemma padded_indices_length: "length (padded_indices self red idx) = length idx"
  by (simp add: padded_indices_def)

lemma padded_indices_nth:
  "i < length idx \<Longrightarrow> padded_indices self red idx ! i =
     (fst (idx ! i) + row_offset self (fst red), snd (idx ! i) + col_offset self (snd red))"
  by (simp add: padded_indices_def split_beta)

lemma padded_dense_spectrum_ok:
  assumes g: "in_grid self idx" and l: "length (vals sp) = length idx"
  shows "padded_dense_spectrum self red sp idx =
     Inr \<lparr>dtype = dtype sp,
          vals = foldl put (zeros (padded_out_features self (fst red)) (padded_in_features self (snd red)))
                   (zip (padded_indices self red idx) (vals sp))\<rparr>"
proof -
  let ?H = "padded_out_features self (fst red)" and ?W = "padded_in_features self (snd red)"
  let ?pi = "padded_indices self red idx"
  have vm: "valid_mask self red idx = replicate (length idx) True" using g by (rule valid_mask_all)
  have s1: "mask_select (valid_mask self red idx) (vals sp) = Inr (vals sp)"
    using vm l by (simp add: mask_select_all)
  have s2: "map snd (filter fst (zip (valid_mask self red idx) ?pi)) = ?pi"
    using vm by (simp add: select_all padded_indices_length)
  have ip: "index_put (zeros ?H ?W) ?pi (vals sp) = Inr (foldl put (zeros ?H ?W) (zip ?pi (vals sp)))"
    using index_put_ok[OF is_matrix_zeros padded_indices_valid[OF g]] l
    by (simp add: padded_indices_length)
  show ?thesis
    unfolding padded_dense_spectrum_def Let_def s2 s1 by (simp add: ip)
qed

lemma example_idwt_configured: "configured example_idwt ''default''"
  by (simp add: configured_def example_idwt_def example_direct_def in_grid_def WAVELET_REDUCTIONS_def)

text \<open>C5: in IDWT mode, for a configured adapter (its index pairs lie inside the
  out_features x in_features grid) and its wavelet family, every shifted index pair lies
  strictly inside the padded matrix, so the validity mask is true everywhere, the filter
  keeps the whole spectrum, and the padded dense spectrum holds \<open>spectrum[i]\<close> at the i-th
  shifted index pair for every i below \<open>n_frequency\<close>.\<close>

theorem padded_indices_in_range:
  fixes self :: "'a::field layer"
  assumes cfg: "configured self adapter"
  shows "\<exists>idx sp fam red dense.
     indices self adapter = Some idx \<and> waveft_spectrum self adapter = Some sp \<and>
     waveft_wavelet_family self adapter = Some fam \<and> map_of WAVELET_REDUCTIONS fam = Some red \<and>
     list_all (\<lambda>(r, c). r < padded_out_features self (fst red) \<and>
                          c < padded_in_features self (snd red)) (padded_indices self red idx) \<and>
     valid_mask self red idx = replicate (length idx) True \<and>
     mask_select (valid_mask self red idx) (vals sp) = Inr (vals sp) \<and>
     padded_dense_spectrum self red sp idx = Inr dense \<and>
     (\<forall>i < length idx.
        vals dense ! (fst (idx ! i) + row_offset self (fst red))
                   ! (snd (idx ! i) + col_offset self (snd red)) = vals sp ! i)"
proof -
  from cfg obtain n sp idx fam s where
    c: "waveft_n_frequency self adapter = Some n" "waveft_spectrum self adapter = Some sp"
    "indices self adapter = Some idx" "waveft_wavelet_family self adapter = Some fam"
    "waveft_scaling self adapter = Some s" "0 < n" "length idx = nat n" "length (vals sp) = nat n"
    "distinct idx" "in_grid self idx" "map_of WAVELET_REDUCTIONS fam \<noteq> None"
    by (rule configuredE)
  from c(11) obtain red where red: "map_of WAVELET_REDUCTIONS fam = Some red" by auto
  let ?H = "padded_out_features self (fst red)" and ?W = "padded_in_features self (snd red)"
  let ?pi = "padded_indices self red idx"
  let ?dense = "\<lparr>dtype = dtype sp, vals = foldl put (zeros ?H ?W) (zip ?pi (vals sp))\<rparr>"
  have l: "length (vals sp) = length idx" using c(7,8) by simp
  have v: "list_all (\<lambda>(r, c). r < ?H \<and> c < ?W) ?pi" using c(10) by (rule padded_indices_valid)
  have vm: "valid_mask self red idx = replicate (length idx) True" using c(10) by (rule valid_mask_all)
  have ms: "mask_select (valid_mask self red idx) (vals sp) = Inr (vals sp)"
    using vm l by (simp add: mask_select_all)
  have pd: "padded_dense_spectrum self red sp idx = Inr ?dense"
    using padded_dense_spectrum_ok[OF c(10) l] .
  have w: "\<forall>i < length idx.
        vals ?dense ! (fst (idx ! i) + row_offset self (fst red))
                    ! (snd (idx ! i) + col_offset self (snd red)) = vals sp ! i"
  proof (intro allI impI)
    fix i assume i: "i < length idx"
    then have i': "i < length ?pi" by (simp add: padded_indices_length)
    have l': "length (vals sp) = length ?pi" using l by (simp add: padded_indices_length)
    have "foldl put (zeros ?H ?W) (zip ?pi (vals sp)) ! fst (?pi ! i) ! snd (?pi ! i) = vals sp ! i"
      using foldl_put_written[OF is_matrix_zeros v padded_indices_distinct[OF c(9)] l' i'] .
    then show "vals ?dense ! (fst (idx ! i) + row_offset self (fst red))
                    ! (snd (idx ! i) + col_offset self (snd red)) = vals sp ! i"
      using padded_indices_nth[OF i, of self red] by simp
  qed
  from c(2,3,4) red v vm ms pd w show ?thesis by blast
qed

theorem padded_indices_in_range_witness:
  "configured example_idwt ''default'' \<and>
   padded_indices example_idwt (2, 2) [(1, 0), (1, 1), (1, 2), (0, 0)]
     = [(2, 1), (2, 2), (2, 3), (1, 1)] \<and>
   valid_mask example_idwt (2, 2) [(1, 0), (1, 1), (1, 2), (0, 0)] = [True, True, True, True] \<and>
   (\<exists>dense. padded_dense_spectrum example_idwt (2, 2) \<lparr>dtype = Float32, vals = [5, 7, 11, 13]\<rparr>
               [(1, 0), (1, 1), (1, 2), (0, 0)] = Inr dense \<and>
      vals dense ! 2 ! 1 = 5 \<and> vals dense ! 2 ! 2 = 7 \<and> vals dense ! 2 ! 3 = 11 \<and>
      vals dense ! 1 ! 1 = 13)"
proof -
  from padded_indices_in_range[OF example_idwt_configured] obtain idx sp fam red dense where
    r: "indices example_idwt ''default'' = Some idx"
       "waveft_spectrum example_idwt ''default'' = Some sp"
       "waveft_wavelet_family example_idwt ''default'' = Some fam"
       "map_of WAVELET_REDUCTIONS fam = Some red"
       "valid_mask example_idwt red idx = replicate (length idx) True"
       "padded_dense_spectrum example_idwt red sp idx = Inr dense"
       "\<forall>i < length idx.
          vals dense ! (fst (idx ! i) + row_offset example_idwt (fst red))
                     ! (snd (idx ! i) + col_offset example_idwt (snd red)) = vals sp ! i"
    by blast
  have i: "idx = [(1, 0), (1, 1), (1, 2), (0, 0)]" "sp = \<lparr>dtype = Float32, vals = [5, 7, 11, 13]\<rparr>"
    "fam = ''db2''"
    using r(1,2,3) by (auto simp: example_idwt_def example_direct_def)
  have red: "red = (2, 2)" using r(4) i(3) db2_reduction by simp
  have off: "row_offset example_idwt 2 = 1" "col_offset example_idwt 2 = 1"
    by (simp_all add: row_offset_def col_offset_def padded_out_features_def padded_in_features_def
        make_even_def example_idwt_def example_direct_def)
  have p: "padded_indices example_idwt (2, 2) [(1, 0), (1, 1), (1, 2), (0, 0)]
     = [(2, 1), (2, 2), (2, 3), (1, 1)]"
    by (simp add: padded_indices_def off)
  have "vals dense ! 2 ! 1 = 5" using r(7)[rule_format, of 0] i red off by (simp add: numeral_2_eq_2 numeral_3_eq_3)
  moreover have "vals dense ! 2 ! 2 = 7" using r(7)[rule_format, of 1] i red off by (simp add: numeral_2_eq_2 numeral_3_eq_3)
  moreover have "vals dense ! 2 ! 3 = 11" using r(7)[rule_format, of 2] i red off by (simp add: numeral_2_eq_2 numeral_3_eq_3)
  moreover have "vals dense ! 1 ! 1 = 13" using r(7)[rule_format, of 3] i red off by (simp add: numeral_2_eq_2 numeral_3_eq_3)
  ultimately show ?thesis using example_idwt_configured p r(5,6) i red by (auto simp: numeral_eq_Suc)
qed

subsection \<open>Reconstruction and the centred crop\<close>

lemma py_slice_window:
  assumes "0 \<le> a" "a + int k \<le> int (length xs)"
  shows "py_slice a (a + int k) xs = take k (drop (nat a) xs)"
  using assms by (simp add: py_slice_def Let_def min_def)

lemma is_matrixI: "length M = R \<Longrightarrow> (\<And>row. row \<in> set M \<Longrightarrow> length row = C) \<Longrightarrow> is_matrix R C M"
  by (simp add: is_matrix_def list_all_iff)

lemma is_matrix_rowD: "is_matrix R C M \<Longrightarrow> row \<in> set M \<Longrightarrow> length row = C"
  by (simp add: is_matrix_def list_all_iff)

lemma is_matrix_lengthD: "is_matrix R C M \<Longrightarrow> length M = R"
  by (simp add: is_matrix_def)

lemma window_is_matrix:
  assumes m: "is_matrix R C M" and r: "a + k \<le> R" and c: "b + l \<le> C"
  shows "is_matrix k l (map (\<lambda>row. take l (drop b row)) (take k (drop a M)))"
proof (rule is_matrixI)
  show "length (map (\<lambda>row. take l (drop b row)) (take k (drop a M))) = k"
    using r is_matrix_lengthD[OF m] by simp
next
  fix row assume "row \<in> set (map (\<lambda>row. take l (drop b row)) (take k (drop a M)))"
  then obtain row' where row': "row' \<in> set (take k (drop a M))" "row = take l (drop b row')"
    by auto
  then have "row' \<in> set M" by (meson in_set_dropD in_set_takeD)
  then have "length row' = C" using m by (rule is_matrix_rowD[rotated])
  then show "length row = l" using row'(2) c by simp
qed

lemma window_nth:
  assumes m: "is_matrix R C M" and r: "a + k \<le> R" and c: "b + l \<le> C" and i: "i < k" and j: "j < l"
  shows "map (\<lambda>row. take l (drop b row)) (take k (drop a M)) ! i ! j = M ! (a + i) ! (b + j)"
proof -
  have lm: "length M = R" using m by (rule is_matrix_lengthD)
  have "a + i < R" using r i by simp
  then have "length (M ! (a + i)) = C" using m by (simp add: is_matrix_nth)
  then show ?thesis using lm r c i j by simp
qed

lemma split_subbands_shape:
  assumes m: "is_matrix H W (vals dense)" and e: "H mod 2 = 0" "W mod 2 = 0"
  shows "\<exists>cA cH cV cD. split_subbands H W dense = (cA, (cH, cV, cD)) \<and>
     is_matrix (H div 2) (W div 2) (vals cA) \<and> is_matrix (H div 2) (W div 2) (vals cH) \<and>
     is_matrix (H div 2) (W div 2) (vals cV) \<and> is_matrix (H div 2) (W div 2) (vals cD)"
proof -
  have h: "H div 2 + H div 2 = H" "W div 2 + W div 2 = W" using e by presburger+
  have l: "length (vals dense) = H" using m by (rule is_matrix_lengthD)
  have rows: "\<And>row. row \<in> set (vals dense) \<Longrightarrow> length row = W"
    using m by (rule is_matrix_rowD)
  have a: "is_matrix (H div 2) (W div 2) (map (take (W div 2)) (take (H div 2) (vals dense)))"
    using window_is_matrix[OF m, of 0 "H div 2" 0 "W div 2"] h by simp
  have b: "is_matrix (H div 2) (W div 2) (map (drop (W div 2)) (take (H div 2) (vals dense)))"
  proof (rule is_matrixI)
    show "length (map (drop (W div 2)) (take (H div 2) (vals dense))) = H div 2" using l h by simp
  next
    fix row assume "row \<in> set (map (drop (W div 2)) (take (H div 2) (vals dense)))"
    then obtain row' where "row' \<in> set (take (H div 2) (vals dense))" "row = drop (W div 2) row'"
      by auto
    then show "length row = W div 2" using rows[of row'] h by (auto dest: in_set_takeD)
  qed
  have c: "is_matrix (H div 2) (W div 2) (map (take (W div 2)) (drop (H div 2) (vals dense)))"
  proof (rule is_matrixI)
    show "length (map (take (W div 2)) (drop (H div 2) (vals dense))) = H div 2" using l h by simp
  next
    fix row assume "row \<in> set (map (take (W div 2)) (drop (H div 2) (vals dense)))"
    then obtain row' where "row' \<in> set (drop (H div 2) (vals dense))" "row = take (W div 2) row'"
      by auto
    then show "length row = W div 2" using rows[of row'] h by (auto dest: in_set_dropD)
  qed
  have d: "is_matrix (H div 2) (W div 2) (map (drop (W div 2)) (drop (H div 2) (vals dense)))"
  proof (rule is_matrixI)
    show "length (map (drop (W div 2)) (drop (H div 2) (vals dense))) = H div 2" using l h by simp
  next
    fix row assume "row \<in> set (map (drop (W div 2)) (drop (H div 2) (vals dense)))"
    then obtain row' where "row' \<in> set (drop (H div 2) (vals dense))" "row = drop (W div 2) row'"
      by auto
    then show "length row = W div 2" using rows[of row'] h by (auto dest: in_set_dropD)
  qed
  show ?thesis using a b c d by (simp add: split_subbands_def Let_def)
qed

lemma center_crop_window:
  assumes m: "is_matrix R C (vals D)" and r: "out_features self \<le> R" and c: "in_features self \<le> C"
    and pos: "0 < out_features self"
  shows "vals (center_crop self D) =
      map (\<lambda>row. take (in_features self) (drop ((C - in_features self) div 2) row))
        (take (out_features self) (drop ((R - out_features self) div 2) (vals D)))"
    and "dtype (center_crop self D) = dtype D"
proof -
  let ?o = "out_features self" and ?i = "in_features self"
  have R: "nrows (vals D) = R" using m by (rule is_matrix_nrows)
  have C: "ncols (vals D) = C" using m r pos by (simp add: is_matrix_ncols)
  have lm: "length (vals D) = R" using m by (rule is_matrix_lengthD)
  have rows: "\<And>row. row \<in> set (vals D) \<Longrightarrow> length row = C" using m by (rule is_matrix_rowD)
  have sr: "(int R - int ?o) div 2 = int ((R - ?o) div 2)" using r by (simp add: of_nat_diff zdiv_int)
  have sc: "(int C - int ?i) div 2 = int ((C - ?i) div 2)" using c by (simp add: of_nat_diff zdiv_int)
  have br: "(R - ?o) div 2 + ?o \<le> R" using r by linarith
  have bc: "(C - ?i) div 2 + ?i \<le> C" using c by linarith
  show "dtype (center_crop self D) = dtype D" by (simp add: center_crop_def Let_def)
  show "vals (center_crop self D) =
      map (\<lambda>row. take ?i (drop ((C - ?i) div 2) row)) (take ?o (drop ((R - ?o) div 2) (vals D)))"
  proof (cases "R = ?o \<and> C = ?i")
    case True
    then have "vals (center_crop self D) = vals D" using R C by (simp add: center_crop_def)
    moreover have "map (\<lambda>row. take C (drop 0 row)) (take R (drop 0 (vals D))) = vals D"
      using lm rows by (simp add: map_idI)
    ultimately show ?thesis using True by simp
  next
    case False
    then have ne: "nrows (vals D) \<noteq> ?o \<or> ncols (vals D) \<noteq> ?i" using R C by auto
    have s1: "py_slice (int ((R - ?o) div 2)) (int ((R - ?o) div 2) + int ?o) (vals D)
                = take ?o (drop ((R - ?o) div 2) (vals D))"
      using py_slice_window[of "int ((R - ?o) div 2)" ?o "vals D"] br lm by simp
    have s2: "\<And>row. row \<in> set (take ?o (drop ((R - ?o) div 2) (vals D))) \<Longrightarrow>
         py_slice (int ((C - ?i) div 2)) (int ((C - ?i) div 2) + int ?i) row
           = take ?i (drop ((C - ?i) div 2) row)"
    proof -
      fix row assume "row \<in> set (take ?o (drop ((R - ?o) div 2) (vals D)))"
      then have "row \<in> set (vals D)" by (meson in_set_dropD in_set_takeD)
      then have "length row = C" by (rule rows)
      then show "py_slice (int ((C - ?i) div 2)) (int ((C - ?i) div 2) + int ?i) row
           = take ?i (drop ((C - ?i) div 2) row)"
        using py_slice_window[of "int ((C - ?i) div 2)" ?i row] bc by simp
    qed
    have "vals (center_crop self D) =
       map (py_slice (int ((C - ?i) div 2)) (int ((C - ?i) div 2) + int ?i))
         (py_slice (int ((R - ?o) div 2)) (int ((R - ?o) div 2) + int ?o) (vals D))"
      using ne R C sr sc by (simp add: center_crop_def Let_def)
    also have "\<dots> = map (\<lambda>row. take ?i (drop ((C - ?i) div 2) row))
                       (take ?o (drop ((R - ?o) div 2) (vals D)))"
      unfolding s1 using s2 by (intro map_cong) auto
    finally show ?thesis .
  qed
qed


lemma get_delta_weight_idwt:
  assumes "waveft_spectrum self adapter = Some sp" "indices self adapter = Some idx"
    "waveft_wavelet_family self adapter = Some fam" "waveft_scaling self adapter = Some s"
    "map_of WAVELET_REDUCTIONS fam = Some red"
    "in_grid self idx" "length (vals sp) = length idx" "use_idwt self"
  shows "get_delta_weight waverec2d self adapter =
     Inr (center_crop self
       ((waverec2d (split_subbands (padded_out_features self (fst red)) (padded_in_features self (snd red))
            \<lparr>dtype = dtype sp,
             vals = foldl put (zeros (padded_out_features self (fst red)) (padded_in_features self (snd red)))
                      (zip (padded_indices self red idx) (vals sp))\<rparr>) fam)
        \<lparr>vals := scale (vals (waverec2d (split_subbands (padded_out_features self (fst red))
            (padded_in_features self (snd red))
            \<lparr>dtype = dtype sp,
             vals = foldl put (zeros (padded_out_features self (fst red)) (padded_in_features self (snd red)))
                      (zip (padded_indices self red idx) (vals sp))\<rparr>) fam)) s\<rparr>))"
  using assms(1,2,3,4,5,8) padded_dense_spectrum_ok[OF assms(6,7), of red]
  by (simp add: get_delta_weight_def lookup_def idwt_delta_weight_def Let_def)

lemma reconstruction_shape:
  assumes shape: "waverec2d_shape waverec2d" and m: "is_matrix H W (vals dense)"
    and e: "H mod 2 = 0" "W mod 2 = 0"
  shows "\<exists>R C. H \<le> R \<and> W \<le> C \<and> is_matrix R C (vals (waverec2d (split_subbands H W dense) fam))"
proof -
  from split_subbands_shape[OF m e] obtain cA cH cV cD where
    s: "split_subbands H W dense = (cA, (cH, cV, cD))"
       "is_matrix (H div 2) (W div 2) (vals cA)" "is_matrix (H div 2) (W div 2) (vals cH)"
       "is_matrix (H div 2) (W div 2) (vals cV)" "is_matrix (H div 2) (W div 2) (vals cD)"
    by blast
  from shape s(2-5) obtain R C where
    "2 * (H div 2) \<le> R" "2 * (W div 2) \<le> C" "is_matrix R C (vals (waverec2d (cA, (cH, cV, cD)) fam))"
    unfolding waverec2d_shape_def by blast
  moreover have "2 * (H div 2) = H" "2 * (W div 2) = W" using e by presburger+
  ultimately show ?thesis using s(1) by auto
qed

lemma join_subbands_shape: "waverec2d_shape join_subbands"
  unfolding waverec2d_shape_def
proof (intro allI impI)
  fix cA cH cV cD :: "'a matrix tensor" and wavelet_family :: string and r c :: nat
  assume a: "is_matrix r c (vals cA) \<and> is_matrix r c (vals cH) \<and>
             is_matrix r c (vals cV) \<and> is_matrix r c (vals cD)"
  have pair: "\<And>A B :: 'a matrix. is_matrix r c A \<Longrightarrow> is_matrix r c B \<Longrightarrow> is_matrix r (2 * c) (map2 (@) A B)"
  proof -
    fix A B :: "'a matrix" assume A: "is_matrix r c A" and B: "is_matrix r c B"
    show "is_matrix r (2 * c) (map2 (@) A B)"
    proof (rule is_matrixI)
      show "length (map2 (@) A B) = r" using A B by (simp add: is_matrix_def)
    next
      fix row assume "row \<in> set (map2 (@) A B)"
      then obtain x y where "(x, y) \<in> set (zip A B)" "row = x @ y" by auto
      then have "x \<in> set A" "y \<in> set B" "row = x @ y" by (auto dest: set_zip_leftD set_zip_rightD)
      then show "length row = 2 * c"
        using is_matrix_rowD[OF A] is_matrix_rowD[OF B] by simp
    qed
  qed
  have top: "is_matrix r (2 * c) (map2 (@) (vals cA) (vals cH))" using a pair by blast
  have bot: "is_matrix r (2 * c) (map2 (@) (vals cV) (vals cD))" using a pair by blast
  have "is_matrix (2 * r) (2 * c) (map2 (@) (vals cA) (vals cH) @ map2 (@) (vals cV) (vals cD))"
    using top bot by (auto simp: is_matrix_def)
  then show "\<exists>R C. 2 * r \<le> R \<and> 2 * c \<le> C \<and>
      is_matrix R C (vals (join_subbands (cA, (cH, cV, cD)) wavelet_family))"
    by (auto simp: join_subbands_def)
qed

lemma example_idwt_delta:
  "get_delta_weight join_subbands example_idwt ''default''
     = Inr \<lparr>dtype = Float32, vals = [[26, 0, 0], [10, 14, 22]]\<rparr>"
  by code_simp

text \<open>C9: in IDWT mode, with a reconstruction that returns at least (2r, 2c) from sub-bands
  of shape (r, c), \<open>get_delta_weight\<close> of a configured adapter returns a matrix of shape
  exactly (out_features, in_features). With (R, C) the shape of the scaled reconstruction,
  the entry (i, j) of the result is the entry ((R - out_features) div 2 + i,
  (C - in_features) div 2 + j) of the reconstruction, and when (R, C) is already
  (out_features, in_features) the result is the reconstruction itself.\<close>

theorem idwt_delta_weight_shape:
  fixes self :: "'a::field layer"
  assumes cfg: "configured self adapter" and idwt: "use_idwt self"
    and shape: "waverec2d_shape waverec2d"
  shows "\<exists>D idx sp fam red s dense rec R C.
     indices self adapter = Some idx \<and> waveft_spectrum self adapter = Some sp \<and>
     waveft_wavelet_family self adapter = Some fam \<and> map_of WAVELET_REDUCTIONS fam = Some red \<and>
     waveft_scaling self adapter = Some s \<and>
     padded_dense_spectrum self red sp idx = Inr dense \<and>
     rec = scale (vals (waverec2d (split_subbands (padded_out_features self (fst red))
                   (padded_in_features self (snd red)) dense) fam)) s \<and>
     is_matrix R C rec \<and> out_features self \<le> R \<and> in_features self \<le> C \<and>
     get_delta_weight waverec2d self adapter = Inr D \<and>
     is_matrix (out_features self) (in_features self) (vals D) \<and>
     (R = out_features self \<and> C = in_features self \<longrightarrow> vals D = rec) \<and>
     (\<forall>i < out_features self. \<forall>j < in_features self.
        vals D ! i ! j = rec ! ((R - out_features self) div 2 + i) ! ((C - in_features self) div 2 + j))"
proof -
  from cfg obtain n sp idx fam s where
    c: "waveft_n_frequency self adapter = Some n" "waveft_spectrum self adapter = Some sp"
    "indices self adapter = Some idx" "waveft_wavelet_family self adapter = Some fam"
    "waveft_scaling self adapter = Some s" "0 < n" "length idx = nat n" "length (vals sp) = nat n"
    "distinct idx" "in_grid self idx" "map_of WAVELET_REDUCTIONS fam \<noteq> None"
    by (rule configuredE)
  from c(11) obtain red where red: "map_of WAVELET_REDUCTIONS fam = Some red" by auto
  let ?o = "out_features self" and ?i = "in_features self"
  let ?H = "padded_out_features self (fst red)" and ?W = "padded_in_features self (snd red)"
  let ?dense = "\<lparr>dtype = dtype sp,
      vals = foldl put (zeros ?H ?W) (zip (padded_indices self red idx) (vals sp))\<rparr>"
  let ?r = "waverec2d (split_subbands ?H ?W ?dense) fam"
  let ?rec = "scale (vals ?r) s"
  let ?D = "center_crop self (?r\<lparr>vals := ?rec\<rparr>)"
  have l: "length (vals sp) = length idx" using c(7,8) by simp
  have ne: "idx \<noteq> []" using c(6,7) by auto
  have pos: "0 < ?o" "0 < ?i" using in_grid_pos[OF c(10) ne] by auto
  have pd: "padded_dense_spectrum self red sp idx = Inr ?dense"
    using padded_dense_spectrum_ok[OF c(10) l] .
  have dm: "is_matrix ?H ?W (vals ?dense)" by (simp add: foldl_put_is_matrix is_matrix_zeros)
  have ev: "?H mod 2 = 0" "?W mod 2 = 0"
    by (simp_all add: padded_out_features_def padded_in_features_def make_even_even)
  from reconstruction_shape[OF shape dm ev, of fam] obtain R C where
    rc: "?H \<le> R" "?W \<le> C" "is_matrix R C (vals ?r)" by blast
  have R: "?o \<le> R" using rc(1) padded_out_ge[of self "fst red"] by simp
  have C: "?i \<le> C" using rc(2) padded_in_ge[of self "snd red"] by simp
  have rm: "is_matrix R C ?rec" using rc(3) by (rule scale_is_matrix)
  have rm': "is_matrix R C (vals (?r\<lparr>vals := ?rec\<rparr>))" using rm by simp
  have gd: "get_delta_weight waverec2d self adapter = Inr ?D"
    using get_delta_weight_idwt[OF c(2,3,4,5) red c(10) l idwt] .
  have br: "(R - ?o) div 2 + ?o \<le> R" using R by linarith
  have bc: "(C - ?i) div 2 + ?i \<le> C" using C by linarith
  have v: "vals ?D = map (\<lambda>row. take ?i (drop ((C - ?i) div 2) row))
                       (take ?o (drop ((R - ?o) div 2) ?rec))"
    using center_crop_window(1)[OF rm' R C pos(1)] by simp
  have m: "is_matrix ?o ?i (vals ?D)"
    unfolding v using window_is_matrix[OF rm br bc] .
  have e: "\<forall>i < ?o. \<forall>j < ?i. vals ?D ! i ! j = ?rec ! ((R - ?o) div 2 + i) ! ((C - ?i) div 2 + j)"
    unfolding v using window_nth[OF rm br bc] by blast
  have same: "R = ?o \<and> C = ?i \<longrightarrow> vals ?D = ?rec"
  proof
    assume eq: "R = ?o \<and> C = ?i"
    have "nrows ?rec = ?o" using rm eq by (simp add: is_matrix_nrows)
    moreover have "ncols ?rec = ?i" using rm eq pos by (simp add: is_matrix_ncols)
    ultimately show "vals ?D = ?rec" by (simp add: center_crop_def)
  qed
  from c(2,3,4,5) red pd rm R C gd m same e show ?thesis by blast
qed

theorem idwt_delta_weight_shape_witness:
  "configured example_idwt ''default'' \<and> use_idwt example_idwt \<and>
   waverec2d_shape (join_subbands :: rat coeffs \<Rightarrow> string \<Rightarrow> rat matrix tensor) \<and>
   (\<exists>D. get_delta_weight join_subbands example_idwt ''default'' = Inr D \<and>
        is_matrix 2 3 (vals D) \<and> vals D = [[26, 0, 0], [10, 14, 22]])"
proof -
  have u: "use_idwt example_idwt" by (simp add: example_idwt_def)
  from idwt_delta_weight_shape[OF example_idwt_configured u join_subbands_shape] obtain D where
    "get_delta_weight join_subbands example_idwt ''default'' = Inr D"
    "is_matrix (out_features example_idwt) (in_features example_idwt) (vals D)"
    by blast
  moreover have "out_features example_idwt = 2" "in_features example_idwt = 3"
    by (simp_all add: example_idwt_def example_direct_def)
  ultimately show ?thesis
    using example_idwt_configured u join_subbands_shape example_idwt_delta by auto
qed

subsection \<open>Zero initialisation\<close>













subsection \<open>Merging and unmerging\<close>

lemma padded_frame [simp]:
  "padded_out_features (self\<lparr>weight := w\<rparr>) = padded_out_features self"
  "padded_out_features (self\<lparr>merged_adapters := m\<rparr>) = padded_out_features self"
  "padded_in_features (self\<lparr>weight := w\<rparr>) = padded_in_features self"
  "padded_in_features (self\<lparr>merged_adapters := m\<rparr>) = padded_in_features self"
  "row_offset (self\<lparr>weight := w\<rparr>) = row_offset self"
  "row_offset (self\<lparr>merged_adapters := m\<rparr>) = row_offset self"
  "col_offset (self\<lparr>weight := w\<rparr>) = col_offset self"
  "col_offset (self\<lparr>merged_adapters := m\<rparr>) = col_offset self"
  by (simp_all add: fun_eq_iff padded_out_features_def padded_in_features_def
      row_offset_def col_offset_def)

lemma padded_indices_frame [simp]:
  "padded_indices (self\<lparr>weight := w\<rparr>) = padded_indices self"
  "padded_indices (self\<lparr>merged_adapters := m\<rparr>) = padded_indices self"
  "valid_mask (self\<lparr>weight := w\<rparr>) = valid_mask self"
  "valid_mask (self\<lparr>merged_adapters := m\<rparr>) = valid_mask self"
  by (simp_all add: fun_eq_iff padded_indices_def valid_mask_def)

lemma padded_dense_spectrum_frame [simp]:
  "padded_dense_spectrum (self\<lparr>weight := w\<rparr>) = padded_dense_spectrum self"
  "padded_dense_spectrum (self\<lparr>merged_adapters := m\<rparr>) = padded_dense_spectrum self"
  by (simp_all add: fun_eq_iff padded_dense_spectrum_def)

lemma center_crop_frame [simp]:
  "center_crop (self\<lparr>weight := w\<rparr>) = center_crop self"
  "center_crop (self\<lparr>merged_adapters := m\<rparr>) = center_crop self"
  by (simp_all add: fun_eq_iff center_crop_def)

lemma delta_weight_frame [simp]:
  "direct_delta_weight (self\<lparr>weight := w\<rparr>) = direct_delta_weight self"
  "direct_delta_weight (self\<lparr>merged_adapters := m\<rparr>) = direct_delta_weight self"
  "idwt_delta_weight waverec2d (self\<lparr>weight := w\<rparr>) = idwt_delta_weight waverec2d self"
  "idwt_delta_weight waverec2d (self\<lparr>merged_adapters := m\<rparr>) = idwt_delta_weight waverec2d self"
  by (simp_all add: fun_eq_iff direct_delta_weight_def idwt_delta_weight_def Let_def
      split: sum.splits)

lemma get_delta_weight_frame [simp]:
  "get_delta_weight waverec2d (self\<lparr>weight := w\<rparr>) a = get_delta_weight waverec2d self a"
  "get_delta_weight waverec2d (self\<lparr>merged_adapters := m\<rparr>) a = get_delta_weight waverec2d self a"
  by (simp_all add: get_delta_weight_def split: sum.splits)









lemma example_two_reached:
  "merge check_adapters_to_merge join_subbands example_isfinite example_two_unmerged False
     (Some [''default'']) = (None, example_two)"
  by (simp add: merge_def check_adapters_to_merge_def example_two_unmerged_def example_two_def
      get_delta_weight_def lookup_def direct_delta_weight_def index_put_def nrows_def ncols_def
      zeros_def put_def scale_def iadd_def expandable_def expand_def numeral_eq_Suc)





subsection \<open>Safe merge\<close>

lemma merge_loop_append:
  "merge_loop waverec2d isfinite safe self (xs @ ys) =
     (case merge_loop waverec2d isfinite safe self xs of
        (None, self1) \<Rightarrow> merge_loop waverec2d isfinite safe self1 ys
      | (Some e, self1) \<Rightarrow> (Some e, self1))"
  by (induction xs arbitrary: self) (auto split: sum.splits)

lemma merge_loop_pushed:
  "merge_loop waverec2d isfinite safe self names = (None, self1) \<Longrightarrow>
     merged_adapters self1 = merged_adapters self @ filter (\<lambda>n. waveft_spectrum self n \<noteq> None) names \<and>
     waveft_spectrum self1 = waveft_spectrum self"
proof (induction names arbitrary: self)
  case Nil
  then show ?case by simp
next
  case (Cons a rest)
  show ?case
  proof (cases "waveft_spectrum self a \<noteq> None")
    case False
    then show ?thesis using Cons.IH[of self] Cons.prems by simp
  next
    case True
    from Cons.prems True obtain delta W' where
      d: "get_delta_weight waverec2d self a = Inr delta"
      and w: "iadd (weight self) (vals delta) = Inr W'"
      and r: "merge_loop waverec2d isfinite safe
                (self\<lparr>weight := W', merged_adapters := merged_adapters self @ [a]\<rparr>) rest = (None, self1)"
      by (auto split: sum.splits if_splits)
    from Cons.IH[OF r] True show ?thesis by simp
  qed
qed

lemma example_two_safe_merge:
  "merge check_adapters_to_merge join_subbands example_isfinite example_two_unmerged True None
     = (Some (ValueError_nans ''other''), example_two)"
  by (simp add: merge_def check_adapters_to_merge_def example_two_unmerged_def example_two_def
      get_delta_weight_def lookup_def direct_delta_weight_def index_put_def nrows_def ncols_def
      zeros_def put_def scale_def iadd_def expandable_def expand_def numeral_eq_Suc
      example_isfinite_def)

text \<open>C6, as stated, fails when the offending adapter is not the first one of the call:
  the adapters merged before it stay merged, so after the error the base weight and the
  merged stack differ from what they were before \<open>merge\<close>.\<close>

theorem safe_merge_counterexample:
  "fst (merge check_adapters_to_merge join_subbands example_isfinite example_two_unmerged True None)
     = Some (ValueError_nans ''other'') \<and>
   weight (snd (merge check_adapters_to_merge join_subbands example_isfinite example_two_unmerged
     True None)) \<noteq> weight example_two_unmerged \<and>
   merged_adapters (snd (merge check_adapters_to_merge join_subbands example_isfinite
     example_two_unmerged True None)) \<noteq> merged_adapters example_two_unmerged"
  by (simp add: example_two_safe_merge) (simp add: example_two_unmerged_def example_two_def)

text \<open>C6, amended: with \<open>safe_merge\<close> true, when the names before the offending adapter merge
  without error into the layer \<open>self1\<close> and the candidate \<open>weight self1 + delta\<close> of the
  offending adapter has a non-finite entry, \<open>merge\<close> raises the ValueError naming that
  adapter and leaves the layer \<open>self1\<close>: the base weight the candidate was computed from is
  kept and the adapter is not pushed. When the offending adapter is the first one, the
  layer is as before \<open>merge\<close>.\<close>

theorem safe_merge_nonfinite:
  fixes self :: "'a::field layer"
  assumes names: "check self adapter_names = pre @ active_adapter # rest"
    and before: "merge_loop waverec2d isfinite True self pre = (None, self1)"
    and key: "waveft_spectrum self1 active_adapter \<noteq> None"
    and delta: "get_delta_weight waverec2d self1 active_adapter = Inr delta"
    and candidate: "iadd (weight self1) (vals delta) = Inr orig_weights"
    and nonfinite: "\<not> list_all (list_all isfinite) orig_weights"
  shows "merge check waverec2d isfinite self True adapter_names
           = (Some (ValueError_nans active_adapter), self1) \<and>
         merged_adapters self1
           = merged_adapters self @ filter (\<lambda>n. waveft_spectrum self n \<noteq> None) pre \<and>
         (pre = [] \<longrightarrow> self1 = self)"
proof -
  have step: "merge_loop waverec2d isfinite True self1 (active_adapter # rest)
      = (Some (ValueError_nans active_adapter), self1)"
    using key delta candidate nonfinite by auto
  have "merge_loop waverec2d isfinite True self (pre @ active_adapter # rest)
      = merge_loop waverec2d isfinite True self1 (active_adapter # rest)"
    by (simp only: merge_loop_append before prod.case option.case)
  then have "merge_loop waverec2d isfinite True self (pre @ active_adapter # rest)
      = (Some (ValueError_nans active_adapter), self1)"
    by (simp only: step)
  then have 1: "merge check waverec2d isfinite self True adapter_names
           = (Some (ValueError_nans active_adapter), self1)"
    using names by (simp add: merge_def)
  have 2: "merged_adapters self1
           = merged_adapters self @ filter (\<lambda>n. waveft_spectrum self n \<noteq> None) pre"
    using merge_loop_pushed[OF before] by simp
  have 3: "pre = [] \<longrightarrow> self1 = self" using before by auto
  from 1 2 3 show ?thesis by simp
qed

theorem safe_merge_nonfinite_witness:
  "merge check_adapters_to_merge join_subbands example_isfinite example_two_unmerged True None
     = (Some (ValueError_nans ''other''), example_two) \<and>
   get_delta_weight join_subbands example_two ''other''
     = Inr \<lparr>dtype = Float32, vals = [[0, 1200, 0], [0, 0, 0]]\<rparr> \<and>
   iadd (weight example_two) [[0, 1200, 0], [0, 0, 0]] = Inr [[27, 1202, 3], [14, 19, 28]] \<and>
   \<not> list_all (list_all example_isfinite) [[27, 1202, 3], [14, 19, 28]] \<and>
   weight example_two = [[27, 2, 3], [14, 19, 28]] \<and>
   merged_adapters example_two = [''default'']"
proof -
  have names: "check_adapters_to_merge example_two_unmerged None = [''default''] @ ''other'' # []"
    by (simp add: check_adapters_to_merge_def example_two_unmerged_def example_two_def)
  have before: "merge_loop join_subbands example_isfinite True example_two_unmerged [''default'']
      = (None, example_two)"
    by (simp add: example_two_unmerged_def example_two_def
      get_delta_weight_def lookup_def direct_delta_weight_def index_put_def nrows_def ncols_def
      zeros_def put_def scale_def iadd_def expandable_def expand_def numeral_eq_Suc
      example_isfinite_def)
  have key: "waveft_spectrum example_two ''other'' \<noteq> None" by (simp add: example_two_def)
  have delta: "get_delta_weight join_subbands example_two ''other''
     = Inr \<lparr>dtype = Float32, vals = [[0, 1200, 0], [0, 0, 0]]\<rparr>"
    by code_simp
  have candidate: "iadd (weight example_two) (vals \<lparr>dtype = Float32, vals = [[0, 1200, 0], [0, 0, 0::rat]]\<rparr>)
      = Inr [[27, 1202, 3], [14, 19, 28]]"
    by code_simp
  have nonfinite: "\<not> list_all (list_all example_isfinite) [[27, 1202, 3], [14, 19, 28]]"
    by (simp add: example_isfinite_def)
  have w: "weight example_two = [[27, 2, 3], [14, 19, 28]]"
    "merged_adapters example_two = [''default'']"
    by (simp_all add: example_two_def)
  from safe_merge_nonfinite[of check_adapters_to_merge, OF names before key delta candidate nonfinite]
  show ?thesis using delta candidate nonfinite w by simp
qed

subsection \<open>Merged adapters are configured adapters\<close>

lemma merged_configuredI:
  "set (merged_adapters self) \<subseteq> dom (waveft_spectrum self) \<Longrightarrow> merged_configured self"
  by (auto simp: merged_configured_def list_all_iff)

lemma merged_configuredD:
  "merged_configured self \<Longrightarrow> set (merged_adapters self) \<subseteq> dom (waveft_spectrum self)"
  by (auto simp: merged_configured_def list_all_iff)

lemma merge_loop_configured:
  "merged_configured self \<Longrightarrow>
   merged_configured (snd (merge_loop waverec2d isfinite safe self names))"
proof (induction names arbitrary: self)
  case Nil
  then show ?case by simp
next
  case (Cons a rest)
  show ?case
  proof (cases "waveft_spectrum self a \<noteq> None")
    case False
    then show ?thesis using Cons.IH[OF Cons.prems] by simp
  next
    case True
    have push: "\<And>w. merged_configured (self\<lparr>weight := w, merged_adapters := merged_adapters self @ [a]\<rparr>)"
      using Cons.prems True by (simp add: merged_configured_def)
    show ?thesis
      using True Cons.prems Cons.IH[OF push]
      by (auto split: sum.splits)
  qed
qed

lemma merge_configured:
  "merged_configured self \<Longrightarrow>
   merged_configured (snd (merge check waverec2d isfinite self safe adapter_names))"
  by (simp add: merge_def Let_def merge_loop_configured)

lemma unmerge_loop_configured:
  "merged_configured self \<Longrightarrow> merged_configured (snd (unmerge_loop waverec2d self))"
proof (induction k \<equiv> "length (merged_adapters self)" arbitrary: self)
  case 0
  then show ?case by (subst unmerge_loop.simps) simp
next
  case (Suc k)
  let ?a = "last (merged_adapters self)"
  let ?s1 = "self\<lparr>merged_adapters := butlast (merged_adapters self)\<rparr>"
  have l: "k = length (merged_adapters ?s1)" using Suc.hyps(2) by simp
  have c1: "merged_configured ?s1"
    using Suc.prems by (auto simp: merged_configured_def list_all_iff dest: in_set_butlastD)
  have l': "\<And>w. k = length (merged_adapters (?s1\<lparr>weight := w\<rparr>))" using l by simp
  have c1': "\<And>w. merged_configured (?s1\<lparr>weight := w\<rparr>)" using c1 by (simp add: merged_configured_def)
  have pos: "merged_adapters self \<noteq> []" using Suc.hyps(2) by auto
  show ?case
    using pos c1 Suc.hyps(1)[OF l c1] Suc.hyps(1)[OF l' c1']
    by (subst unmerge_loop.simps) (auto simp: Let_def split: sum.splits)
qed

lemma unmerge_configured:
  "merged_configured self \<Longrightarrow> merged_configured (snd (unmerge waverec2d self))"
  by (simp add: unmerge_def unmerge_loop_configured)

lemma forward_configured:
  fixes self :: "'a::field layer"
  shows "merged_configured self \<Longrightarrow> merged_configured (snd (forward base_layer waverec2d self x))"
  using unmerge_configured[of self waverec2d]
  by (auto simp: forward_def Let_def split: prod.splits option.splits sum.splits)

lemma update_layer_configured_merged:
  fixes self :: "'a::field layer"
  shows "merged_configured self \<Longrightarrow>
   merged_configured (snd (update_layer randperm randn empty_init pd self name n scaling iw seed fam))"
  by (auto simp: update_layer_def Let_def reset_wave_parameters_def merged_configured_def list_all_iff)

lemma call_layer_configured:
  "merged_configured self \<Longrightarrow> merged_configured (call_layer ext self c)"
proof -
  assume m: "merged_configured self"
  show ?thesis
  proof (cases c)
    case (Update_layer name n scaling iw seed fam)
    then show ?thesis using m by (simp add: update_layer_configured_merged)
  next
    case (Merge safe names)
    then show ?thesis using m by (simp add: merge_configured)
  next
    case Unmerge
    then show ?thesis using m by (simp add: unmerge_configured)
  next
    case (Forward x)
    then show ?thesis using m by (simp add: forward_configured)
  next
    case (Train name vs)
    then show ?thesis using m
      by (auto simp: merged_configured_def list_all_iff split: option.splits)
  next
    case (Set_adapter names)
    then show ?thesis using m by (simp add: merged_configured_def)
  next
    case (Enable_adapters enabled)
    then show ?thesis using m by (simp add: merged_configured_def)
  qed
qed

lemma run_calls_configured:
  "merged_configured self \<Longrightarrow> merged_configured (run_calls ext self calls)"
  unfolding run_calls_def
  by (induction calls arbitrary: self) (simp_all add: call_layer_configured)

lemma WaveFTLinear_init_configured:
  fixes self :: "'a::field layer"
  assumes "WaveFTLinear_init randperm randn empty_init pd b name n scaling iw seed fam idwt = Inr self"
  shows "merged_configured self"
proof -
  from assms obtain s0 where
    s0: "WaveFTLayer_init b idwt [name] = Inr s0"
    and u: "update_layer randperm randn empty_init pd s0 name n scaling iw seed fam = (None, self)"
    by (auto simp: WaveFTLinear_init_def split: sum.splits prod.splits option.splits)
  have "merged_adapters s0 = []"
    using s0 by (auto simp: WaveFTLayer_init_def Let_def split: base_layer.splits)
  then have "merged_configured s0" by (simp add: merged_configured_def)
  from update_layer_configured_merged[OF this, of randperm randn empty_init pd name n scaling iw seed fam]
  show ?thesis using u by simp
qed

lemma example_init_constructed:
  "WaveFTLinear_init (ext_randperm example_externals) (ext_randn example_externals)
     (ext_empty example_externals) (ext_dtype example_externals)
     (Linear 3 2 [[1, 2, 3], [4, 5, 6]]) ''default'' 4 2 False 777 ''db2'' True = Inr example_init"
proof -
  have s0: "WaveFTLayer_init (Linear 3 2 [[1, 2, 3], [4, 5, 6::rat]]) True [''default''] = Inr example_fresh"
    by (simp add: WaveFTLayer_init_def example_fresh_def base_weight_def)
  have n: "(0::int) < 4" "(4::int) \<le> int (in_features example_fresh * out_features example_fresh)"
    by (simp_all add: example_fresh_def)
  have f: "map_of WAVELET_REDUCTIONS ''db2'' \<noteq> None" by (simp add: db2_reduction)
  have "fst (update_layer example_randperm example_randn example_empty Float32 example_fresh
           ''default'' 4 2 False 777 ''db2'') = None"
    using update_layer_ok(1)[OF n f] .
  then have "update_layer example_randperm example_randn example_empty Float32 example_fresh
           ''default'' 4 2 False 777 ''db2'' = (None, example_init)"
    by (simp add: example_init_def prod_eq_iff)
  then show ?thesis by (simp add: WaveFTLinear_init_def s0 example_externals_def)
qed

lemma example_run:
  "merged_adapters (run_calls example_externals example_init
      [Merge False (Some [''ghost'', ''default'']), Forward example_x,
       Update_layer ''other'' 1 3 True 5 ''db1'', Merge True None]) = [''default'']"
  by code_simp

lemma example_run_unmerged:
  "merged_adapters (run_calls example_externals example_init
      [Merge False (Some [''ghost'', ''default'']), Enable_adapters False, Forward example_x]) = []"
  by code_simp

text \<open>C10: \<open>merge\<close> skips a resolved name that has no spectrum: the loop goes on as if the
  name were not there, so the base weight is not changed and the name is not pushed. In
  every layer reached from \<open>WaveFTLinear.__init__\<close> by any sequence of calls, every merged
  adapter name is a key of the spectrum map.\<close>

theorem merged_adapters_configured:
  fixes self self0 :: "'a::field layer"
  shows
  "(waveft_spectrum self active_adapter = None \<longrightarrow>
      merge_loop waverec2d isfinite safe_merge self (active_adapter # rest)
        = merge_loop waverec2d isfinite safe_merge self rest \<and>
      merge_loop waverec2d isfinite safe_merge self [active_adapter] = (None, self)) \<and>
   (WaveFTLinear_init (ext_randperm ext) (ext_randn ext) (ext_empty ext) (ext_dtype ext)
        b name n scaling iw seed fam idwt = Inr self0 \<longrightarrow>
      set (merged_adapters (run_calls ext self0 calls))
        \<subseteq> dom (waveft_spectrum (run_calls ext self0 calls)))"
proof (intro conjI impI)
  assume "waveft_spectrum self active_adapter = None"
  then show "merge_loop waverec2d isfinite safe_merge self (active_adapter # rest)
        = merge_loop waverec2d isfinite safe_merge self rest" by simp
next
  assume "waveft_spectrum self active_adapter = None"
  then show "merge_loop waverec2d isfinite safe_merge self [active_adapter] = (None, self)" by simp
next
  assume "WaveFTLinear_init (ext_randperm ext) (ext_randn ext) (ext_empty ext) (ext_dtype ext)
        b name n scaling iw seed fam idwt = Inr self0"
  then have "merged_configured self0" by (rule WaveFTLinear_init_configured)
  then have "merged_configured (run_calls ext self0 calls)" by (rule run_calls_configured)
  then show "set (merged_adapters (run_calls ext self0 calls))
        \<subseteq> dom (waveft_spectrum (run_calls ext self0 calls))"
    by (rule merged_configuredD)
qed

theorem merged_adapters_configured_witness:
  "waveft_spectrum example_direct ''ghost'' = None \<and>
   merge_loop join_subbands example_isfinite False example_direct [''ghost''] = (None, example_direct) \<and>
   WaveFTLinear_init (ext_randperm example_externals) (ext_randn example_externals)
     (ext_empty example_externals) (ext_dtype example_externals)
     (Linear 3 2 [[1, 2, 3], [4, 5, 6]]) ''default'' 4 2 False 777 ''db2'' True = Inr example_init \<and>
   merged_adapters (run_calls example_externals example_init
      [Merge False (Some [''ghost'', ''default'']), Forward example_x,
       Update_layer ''other'' 1 3 True 5 ''db1'', Merge True None]) = [''default''] \<and>
   set (merged_adapters (run_calls example_externals example_init
      [Merge False (Some [''ghost'', ''default'']), Forward example_x,
       Update_layer ''other'' 1 3 True 5 ''db1'', Merge True None]))
     \<subseteq> dom (waveft_spectrum (run_calls example_externals example_init
      [Merge False (Some [''ghost'', ''default'']), Forward example_x,
       Update_layer ''other'' 1 3 True 5 ''db1'', Merge True None]))"
proof -
  have g: "waveft_spectrum example_direct ''ghost'' = None" by (simp add: example_direct_def)
  from merged_adapters_configured[of example_direct "''ghost''" join_subbands example_isfinite False
      "[]" example_externals "Linear 3 2 [[1, 2, 3], [4, 5, 6]]" "''default''" 4 2 False 777 "''db2''"
      True example_init
      "[Merge False (Some [''ghost'', ''default'']), Forward example_x,
        Update_layer ''other'' 1 3 True 5 ''db1'', Merge True None]"]
  show ?thesis using g example_init_constructed example_run by simp
qed

subsection \<open>The forward pass\<close>

lemma to_to [simp]: "to d (to d' x) = to d x"
  by (simp add: to_def)

lemma dtype_to [simp]: "dtype (to d x) = d"
  by (simp add: to_def)





end
